theory Spec2Isabelle
  imports Complex_Main
begin

section \<open>Python values\<close>

text \<open>
  The exceptions the modelled code can raise. \<open>FieldError\<close> carries the violation
  dictionary of \<^verbatim>\<open>Packages.__init__\<close> as an association list in insertion order;
  its only value is \<^verbatim>\<open>FieldErrorCode.required\<close>.
\<close>

datatype FieldErrorCode = required

datatype error =
    AttributeError
  | TypeError
  | KeyError
  | IndexError
  | StopIteration
  | FieldError "(string \<times> FieldErrorCode) list"
  | MultiParcelNotSupportedError

text \<open>
  A Python \<^verbatim>\<open>float\<close> is modelled as an exact rational: products and sums are exact,
  and \<^verbatim>\<open>round(x, 2)\<close> rounds the exact value to the nearest multiple of 1/100, ties
  to the even neighbour. This is an idealisation of the binary double: Python rounds
  the double nearest to the decimal, so on a decimal tie it may go the other way
  (\<^verbatim>\<open>round(0.005, 2)\<close> is 0.01 and \<^verbatim>\<open>round(2.675, 2)\<close> is 2.67, where the model
  gives 0 and 2.68). The general statements below use of the rounding only that it
  moves a value by at most 1/200, and the concrete values are away from ties.
  \<^verbatim>\<open>None\<close> is \<open>None\<close> of an option type.
\<close>

definition round_half_even :: "rat \<Rightarrow> int" where
  "round_half_even x =
     (let f = \<lfloor>x\<rfloor>; d = x - of_int f
      in if d < 1 / 2 then f
         else if 1 / 2 < d then f + 1
         else if even f then f else f + 1)"

definition round2 :: "rat \<Rightarrow> rat" where
  "round2 x = of_int (round_half_even (x * 100)) / 100"

text \<open>\<^verbatim>\<open>purplship.core.utils.number.decimal\<close>\<close>

definition decimal :: "rat option \<Rightarrow> rat option" where
  "decimal v = (case v of None \<Rightarrow> None | Some x \<Rightarrow> Some (round2 x))"

text \<open>Truthiness of an optional float and of an optional string, and Python's \<^verbatim>\<open>a or b\<close>.\<close>

definition truthy :: "rat option \<Rightarrow> bool" where
  "truthy v = (case v of None \<Rightarrow> False | Some x \<Rightarrow> x \<noteq> 0)"

definition truthy_str :: "string option \<Rightarrow> bool" where
  "truthy_str v = (case v of None \<Rightarrow> False | Some s \<Rightarrow> s \<noteq> [])"

definition py_or :: "rat option \<Rightarrow> rat option \<Rightarrow> rat option" where
  "py_or a b = (if truthy a then a else b)"

definition py_or_str :: "string option \<Rightarrow> string option \<Rightarrow> string option" where
  "py_or_str a b = (if truthy_str a then a else b)"

text \<open>\<^verbatim>\<open>any(xs)\<close> on a list of optional floats.\<close>

primrec py_any :: "rat option list \<Rightarrow> bool" where
  "py_any [] = False"
| "py_any (x # xs) = (truthy x \<or> py_any xs)"

text \<open>\<^verbatim>\<open>a * b\<close> and \<^verbatim>\<open>a + b\<close> on optional floats: an operand \<^verbatim>\<open>None\<close> raises TypeError.\<close>

definition py_mul :: "rat option \<Rightarrow> rat option \<Rightarrow> error + rat" where
  "py_mul a b = (case (a, b) of (Some x, Some y) \<Rightarrow> Inr (x * y) | _ \<Rightarrow> Inl TypeError)"

definition py_add :: "rat option \<Rightarrow> rat option \<Rightarrow> error + rat" where
  "py_add a b = (case (a, b) of (Some x, Some y) \<Rightarrow> Inr (x + y) | _ \<Rightarrow> Inl TypeError)"

text \<open>
  \<^verbatim>\<open>list.sort()\<close> on a list of optional floats: with two or more elements every
  element is compared with a neighbour, and a comparison with \<^verbatim>\<open>None\<close> raises TypeError.
\<close>

fun the_floats :: "rat option list \<Rightarrow> rat list" where
  "the_floats [] = []"
| "the_floats (None # xs) = the_floats xs"
| "the_floats (Some x # xs) = x # the_floats xs"

definition py_sort :: "rat option list \<Rightarrow> error + rat option list" where
  "py_sort xs =
     (if 2 \<le> length xs \<and> None \<in> set xs then Inl TypeError
      else Inr (map Some (sort (the_floats xs)) @ filter (\<lambda>x. x = None) xs))"

section \<open>Measurement subsystem (\<^verbatim>\<open>purplship/core/units.py\<close>)\<close>

datatype WeightUnit = KG | LB

datatype DimensionUnit = CM | IN

text \<open>\<^verbatim>\<open>class Dimension\<close>: the fields \<^verbatim>\<open>_value\<close> and \<^verbatim>\<open>_unit\<close>.\<close>

record Dimension =
  d_value :: "rat option"
  d_unit :: "DimensionUnit option"

definition Dimension_CM :: "Dimension \<Rightarrow> rat option" where
  "Dimension_CM d =
     (if d_unit d = None \<or> d_value d = None then None
      else if d_unit d = Some CM then decimal (d_value d)
      else decimal (Some (the (d_value d) * 0.393701)))"

definition Dimension_IN :: "Dimension \<Rightarrow> rat option" where
  "Dimension_IN d =
     (if d_unit d = None \<or> d_value d = None then None
      else if d_unit d = Some IN then decimal (d_value d)
      else decimal (Some (the (d_value d) * 2.54)))"

definition Dimension_M :: "Dimension \<Rightarrow> rat option" where
  "Dimension_M d =
     (if d_unit d = None \<or> d_value d = None then None
      else decimal (Some (the (Dimension_CM d) / 100)))"

text \<open>
  \<^verbatim>\<open>Dimension.value\<close> looks the accessor up by \<^verbatim>\<open>self._unit.name\<close>; on a unit
  \<^verbatim>\<open>None\<close> that attribute access raises.
\<close>

definition Dimension_value :: "Dimension \<Rightarrow> error + rat option" where
  "Dimension_value d =
     (case d_unit d of
        None \<Rightarrow> Inl AttributeError
      | Some CM \<Rightarrow> Inr (Dimension_CM d)
      | Some IN \<Rightarrow> Inr (Dimension_IN d))"

text \<open>\<^verbatim>\<open>class Volume\<close>, built from three \<^verbatim>\<open>Dimension\<close> sides (the annotated type).\<close>

record Volume =
  v_side1 :: Dimension
  v_side2 :: Dimension
  v_side3 :: Dimension

definition Volume_value :: "Volume \<Rightarrow> error + rat option" where
  "Volume_value v =
     (case Dimension_value (v_side1 v) of Inl e \<Rightarrow> Inl e | Inr a \<Rightarrow>
      case Dimension_value (v_side2 v) of Inl e \<Rightarrow> Inl e | Inr b \<Rightarrow>
      case Dimension_value (v_side3 v) of Inl e \<Rightarrow> Inl e | Inr c \<Rightarrow>
        if \<not> py_any [a, b, c] then Inr None
        else
          case py_mul (Dimension_M (v_side1 v)) (Dimension_M (v_side2 v)) of
            Inl e \<Rightarrow> Inl e
          | Inr p \<Rightarrow>
              (case py_mul (Some p) (Dimension_M (v_side3 v)) of
                 Inl e \<Rightarrow> Inl e
               | Inr q \<Rightarrow> Inr (decimal (Some q))))"

definition Volume_cubic_meter :: "Volume \<Rightarrow> error + rat option" where
  "Volume_cubic_meter v =
     (case Volume_value v of
        Inl e \<Rightarrow> Inl e
      | Inr None \<Rightarrow> Inr None
      | Inr (Some x) \<Rightarrow> Inr (decimal (Some (x * 250))))"

text \<open>\<^verbatim>\<open>class Girth\<close>\<close>

record Girth =
  g_side1 :: Dimension
  g_side2 :: Dimension
  g_side3 :: Dimension

definition Girth_sides :: "Girth \<Rightarrow> rat option list" where
  "Girth_sides g = [Dimension_CM (g_side1 g), Dimension_CM (g_side2 g), Dimension_CM (g_side3 g)]"

definition Girth_value :: "Girth \<Rightarrow> error + rat option" where
  "Girth_value g =
     (let sides = Girth_sides g
      in if \<not> py_any sides then Inr None
         else
           case py_sort sides of
             Inl e \<Rightarrow> Inl e
           | Inr ss \<Rightarrow>
               (case py_add (ss ! 0) (ss ! 1) of
                  Inl e \<Rightarrow> Inl e
                | Inr s \<Rightarrow> Inr (decimal (Some (s * 2)))))"

text \<open>\<^verbatim>\<open>class Weight\<close>: the fields \<^verbatim>\<open>_value\<close> and \<^verbatim>\<open>_unit\<close>.\<close>

record Weight =
  w_value :: "rat option"
  w_unit :: "WeightUnit option"

definition Weight_KG :: "Weight \<Rightarrow> rat option" where
  "Weight_KG w =
     (if w_unit w = None \<or> w_value w = None then None
      else if w_unit w = Some KG then decimal (w_value w)
      else if w_unit w = Some LB then decimal (Some (the (w_value w) * 0.453592))
      else None)"

definition Weight_LB :: "Weight \<Rightarrow> rat option" where
  "Weight_LB w =
     (if w_unit w = None \<or> w_value w = None then None
      else if w_unit w = Some LB then decimal (w_value w)
      else if w_unit w = Some KG then decimal (Some (the (w_value w) * 2.204620823516057))
      else None)"

definition Weight_OZ :: "Weight \<Rightarrow> rat option" where
  "Weight_OZ w =
     (if w_unit w = None \<or> w_value w = None then None
      else if w_unit w = Some LB then decimal (Some (the (w_value w) * 16))
      else if w_unit w = Some KG then decimal (Some (the (w_value w) * 35.274))
      else None)"

definition Weight_value :: "Weight \<Rightarrow> error + rat option" where
  "Weight_value w =
     (case w_unit w of
        None \<Rightarrow> Inl AttributeError
      | Some KG \<Rightarrow> Inr (Weight_KG w)
      | Some LB \<Rightarrow> Inr (Weight_LB w))"

section \<open>Package and Packages (\<^verbatim>\<open>purplship/core/units.py\<close>)\<close>

text \<open>
  \<^verbatim>\<open>Parcel\<close> is declared in \<^verbatim>\<open>purplship.core.models\<close>; the record has the fields that
  \<^verbatim>\<open>Package\<close> and \<^verbatim>\<open>Packages\<close> read. Every field defaults to \<^verbatim>\<open>None\<close>.
\<close>

record Parcel =
  parcel_weight :: "rat option"
  parcel_width :: "rat option"
  parcel_height :: "rat option"
  parcel_length :: "rat option"
  parcel_packaging_type :: "string option"
  parcel_package_preset :: "string option"
  parcel_weight_unit :: "string option"
  parcel_dimension_unit :: "string option"

text \<open>\<^verbatim>\<open>@dataclass class PackagePreset\<close>\<close>

record PackagePreset =
  preset_width :: "rat option"
  preset_height :: "rat option"
  preset_length :: "rat option"
  preset_weight :: "rat option"
  preset_volume :: "rat option"
  preset_weight_unit :: "string option"
  preset_dimension_unit :: "string option"
  preset_packaging_type :: "string option"

text \<open>\<^verbatim>\<open>PackagePreset()\<close>: the field defaults.\<close>

definition default_PackagePreset :: PackagePreset where
  "default_PackagePreset =
     \<lparr>preset_width = None, preset_height = None, preset_length = None,
      preset_weight = None, preset_volume = None,
      preset_weight_unit = Some ''LB'', preset_dimension_unit = Some ''IN'',
      preset_packaging_type = None\<rparr>"

text \<open>\<^verbatim>\<open>WeightUnit[name]\<close> and \<^verbatim>\<open>DimensionUnit[name]\<close>: a name that is no member raises KeyError.\<close>

definition WeightUnit_lookup :: "string option \<Rightarrow> error + WeightUnit" where
  "WeightUnit_lookup n =
     (if n = Some ''KG'' then Inr KG else if n = Some ''LB'' then Inr LB else Inl KeyError)"

definition DimensionUnit_lookup :: "string option \<Rightarrow> error + DimensionUnit" where
  "DimensionUnit_lookup n =
     (if n = Some ''CM'' then Inr CM else if n = Some ''IN'' then Inr IN else Inl KeyError)"

text \<open>\<^verbatim>\<open>class Package\<close>\<close>

record Package =
  parcel :: Parcel
  preset :: PackagePreset

definition Package_init :: "Parcel \<Rightarrow> PackagePreset option \<Rightarrow> Package" where
  "Package_init p template =
     \<lparr>parcel = p,
      preset = (case template of None \<Rightarrow> default_PackagePreset | Some t \<Rightarrow> t)\<rparr>"

definition Package_dimension_unit :: "Package \<Rightarrow> error + DimensionUnit" where
  "Package_dimension_unit pkg =
     (let dimensions =
            [parcel_height (parcel pkg), parcel_width (parcel pkg), parcel_length (parcel pkg)];
          unit =
            (if py_any dimensions
             then py_or_str (parcel_dimension_unit (parcel pkg))
                    (preset_dimension_unit (preset pkg))
             else preset_dimension_unit (preset pkg))
      in DimensionUnit_lookup unit)"

definition Package_weight_unit :: "Package \<Rightarrow> error + WeightUnit" where
  "Package_weight_unit pkg =
     (let unit =
            (if parcel_weight (parcel pkg) = None then preset_weight_unit (preset pkg)
             else py_or_str (parcel_weight_unit (parcel pkg)) (preset_weight_unit (preset pkg)))
      in WeightUnit_lookup unit)"

definition Package_packaging_type :: "Package \<Rightarrow> string option" where
  "Package_packaging_type pkg =
     py_or_str (parcel_packaging_type (parcel pkg)) (preset_packaging_type (preset pkg))"

definition Package_weight :: "Package \<Rightarrow> error + Weight" where
  "Package_weight pkg =
     (case Package_weight_unit pkg of
        Inl e \<Rightarrow> Inl e
      | Inr u \<Rightarrow>
          Inr \<lparr>w_value = py_or (parcel_weight (parcel pkg)) (preset_weight (preset pkg)),
               w_unit = Some u\<rparr>)"

definition Package_width :: "Package \<Rightarrow> error + Dimension" where
  "Package_width pkg =
     (case Package_dimension_unit pkg of
        Inl e \<Rightarrow> Inl e
      | Inr u \<Rightarrow>
          Inr \<lparr>d_value = py_or (preset_width (preset pkg)) (parcel_width (parcel pkg)),
               d_unit = Some u\<rparr>)"

definition Package_height :: "Package \<Rightarrow> error + Dimension" where
  "Package_height pkg =
     (case Package_dimension_unit pkg of
        Inl e \<Rightarrow> Inl e
      | Inr u \<Rightarrow>
          Inr \<lparr>d_value = py_or (preset_height (preset pkg)) (parcel_height (parcel pkg)),
               d_unit = Some u\<rparr>)"

definition Package_length :: "Package \<Rightarrow> error + Dimension" where
  "Package_length pkg =
     (case Package_dimension_unit pkg of
        Inl e \<Rightarrow> Inl e
      | Inr u \<Rightarrow>
          Inr \<lparr>d_value = py_or (preset_length (preset pkg)) (parcel_length (parcel pkg)),
               d_unit = Some u\<rparr>)"

definition Package_girth :: "Package \<Rightarrow> error + Girth" where
  "Package_girth pkg =
     (case Package_width pkg of Inl e \<Rightarrow> Inl e | Inr w \<Rightarrow>
      case Package_length pkg of Inl e \<Rightarrow> Inl e | Inr l \<Rightarrow>
      case Package_height pkg of Inl e \<Rightarrow> Inl e | Inr h \<Rightarrow>
        Inr \<lparr>g_side1 = w, g_side2 = l, g_side3 = h\<rparr>)"

definition Package_volume :: "Package \<Rightarrow> error + Volume" where
  "Package_volume pkg =
     (case Package_width pkg of Inl e \<Rightarrow> Inl e | Inr w \<Rightarrow>
      case Package_length pkg of Inl e \<Rightarrow> Inl e | Inr l \<Rightarrow>
      case Package_height pkg of Inl e \<Rightarrow> Inl e | Inr h \<Rightarrow>
        Inr \<lparr>v_side1 = w, v_side2 = l, v_side3 = h\<rparr>)"

text \<open>
  \<^verbatim>\<open>Package.thickness\<close> reads \<^verbatim>\<open>self.preset.thickness\<close> first, a field that
  \<^verbatim>\<open>PackagePreset\<close> does not have.
\<close>

definition Package_thickness :: "Package \<Rightarrow> error + Dimension" where
  "Package_thickness pkg = Inl AttributeError"

text \<open>
  \<^verbatim>\<open>getattr(package, field)\<close> over the attributes and properties that \<^verbatim>\<open>class Package\<close>
  defines; any other name raises AttributeError. The value is tagged with its Python class.
\<close>

datatype attr_value =
    AWeight Weight
  | ADimension Dimension
  | AGirth Girth
  | AVolume Volume
  | ADimensionUnit DimensionUnit
  | AWeightUnit WeightUnit
  | AStr "string option"
  | AParcel Parcel
  | APreset PackagePreset

definition Package_getattr :: "Package \<Rightarrow> string \<Rightarrow> error + attr_value" where
  "Package_getattr pkg field =
     (if field = ''parcel'' then Inr (AParcel (parcel pkg))
      else if field = ''preset'' then Inr (APreset (preset pkg))
      else if field = ''dimension_unit'' then map_sum id ADimensionUnit (Package_dimension_unit pkg)
      else if field = ''weight_unit'' then map_sum id AWeightUnit (Package_weight_unit pkg)
      else if field = ''packaging_type'' then Inr (AStr (Package_packaging_type pkg))
      else if field = ''weight'' then map_sum id AWeight (Package_weight pkg)
      else if field = ''width'' then map_sum id ADimension (Package_width pkg)
      else if field = ''height'' then map_sum id ADimension (Package_height pkg)
      else if field = ''length'' then map_sum id ADimension (Package_length pkg)
      else if field = ''girth'' then map_sum id AGirth (Package_girth pkg)
      else if field = ''volume'' then map_sum id AVolume (Package_volume pkg)
      else if field = ''thickness'' then map_sum id ADimension (Package_thickness pkg)
      else Inl AttributeError)"

text \<open>
  \<^verbatim>\<open>hasattr(prop, 'value') and prop.value is None\<close>: \<^verbatim>\<open>hasattr\<close> evaluates the property
  and answers False on AttributeError only; any other exception leaves it.
\<close>

definition value_is_None :: "error + rat option \<Rightarrow> error + bool" where
  "value_is_None r =
     (case r of
        Inl AttributeError \<Rightarrow> Inr False
      | Inl e \<Rightarrow> Inl e
      | Inr v \<Rightarrow> Inr (v = None))"

text \<open>\<^verbatim>\<open>prop is None or (hasattr(prop, 'value') and prop.value is None)\<close>\<close>

fun prop_missing :: "attr_value \<Rightarrow> error + bool" where
  "prop_missing (AWeight w) = value_is_None (Weight_value w)"
| "prop_missing (ADimension d) = value_is_None (Dimension_value d)"
| "prop_missing (AGirth g) = value_is_None (Girth_value g)"
| "prop_missing (AVolume v) = value_is_None (Volume_value v)"
| "prop_missing (ADimensionUnit u) = Inr False"
| "prop_missing (AWeightUnit u) = Inr False"
| "prop_missing (AStr s) = Inr (s = None)"
| "prop_missing (AParcel p) = Inr False"
| "prop_missing (APreset p) = Inr False"

text \<open>\<^verbatim>\<open>str(index)\<close> and the key \<^verbatim>\<open>f"parcel[{index}].{field}"\<close>.\<close>

definition digit_char :: "nat \<Rightarrow> char" where
  "digit_char n = ''0123456789'' ! n"

function str_nat :: "nat \<Rightarrow> string" where
  "str_nat n = (if n < 10 then [digit_char n] else str_nat (n div 10) @ [digit_char (n mod 10)])"
  by pat_completeness auto
termination
  by (relation "measure id") auto

declare str_nat.simps [simp del]

definition field_key :: "nat \<Rightarrow> string \<Rightarrow> string" where
  "field_key index field = ''parcel['' @ str_nat index @ ''].'' @ field"

text \<open>\<^verbatim>\<open>errors.update({key: code})\<close> on a dictionary kept in insertion order.\<close>

fun dict_update :: "string \<Rightarrow> FieldErrorCode \<Rightarrow> (string \<times> FieldErrorCode) list
    \<Rightarrow> (string \<times> FieldErrorCode) list" where
  "dict_update k v [] = [(k, v)]"
| "dict_update k v ((k', v') # kvs) =
     (if k = k' then (k, v) # kvs else (k', v') # dict_update k v kvs)"

text \<open>
  The test of the inner loop on one field:
  \<^verbatim>\<open>prop = getattr(package, field)\<close>, then
  \<^verbatim>\<open>prop is None or (hasattr(prop, 'value') and prop.value is None)\<close>.
\<close>

definition field_missing :: "Package \<Rightarrow> string \<Rightarrow> error + bool" where
  "field_missing pkg field =
     (case Package_getattr pkg field of Inl e \<Rightarrow> Inl e | Inr prop \<Rightarrow> prop_missing prop)"

text \<open>The inner loop \<^verbatim>\<open>for field in required\<close> of \<^verbatim>\<open>Packages.__init__\<close>.\<close>

fun check_fields :: "nat \<Rightarrow> Package \<Rightarrow> string list \<Rightarrow> (string \<times> FieldErrorCode) list
    \<Rightarrow> error + (string \<times> FieldErrorCode) list" where
  "check_fields index pkg [] errors = Inr errors"
| "check_fields index pkg (field # rest) errors =
     (case field_missing pkg field of
        Inl e \<Rightarrow> Inl e
      | Inr m \<Rightarrow>
          check_fields index pkg rest
            (if m then dict_update (field_key index field) required errors else errors))"

text \<open>The outer loop \<^verbatim>\<open>for index, package in enumerate(self._items)\<close>.\<close>

fun check_items :: "nat \<Rightarrow> Package list \<Rightarrow> string list \<Rightarrow> (string \<times> FieldErrorCode) list
    \<Rightarrow> error + (string \<times> FieldErrorCode) list" where
  "check_items index [] req errors = Inr errors"
| "check_items index (pkg # pkgs) req errors =
     (case check_fields index pkg req errors of
        Inl e \<Rightarrow> Inl e
      | Inr errors' \<Rightarrow> check_items (Suc index) pkgs req errors')"

text \<open>
  \<^verbatim>\<open>class Packages\<close>. The enumeration \<^verbatim>\<open>presets\<close> is a map from member names to
  \<^verbatim>\<open>PackagePreset\<close> values, or \<^verbatim>\<open>None\<close>.
\<close>

record Packages =
  items :: "Package list"

definition compute_preset :: "(string \<rightharpoonup> PackagePreset) option \<Rightarrow> Parcel \<Rightarrow> PackagePreset option" where
  "compute_preset presets p =
     (case presets of
        None \<Rightarrow> None
      | Some members \<Rightarrow>
          (case parcel_package_preset p of
             None \<Rightarrow> None
           | Some name \<Rightarrow> members name))"

text \<open>\<^verbatim>\<open>[Package(parcel, compute_preset(parcel)) for parcel in parcels]\<close>\<close>

definition build_items :: "Parcel list \<Rightarrow> (string \<rightharpoonup> PackagePreset) option \<Rightarrow> Package list" where
  "build_items parcels presets = map (\<lambda>p. Package_init p (compute_preset presets p)) parcels"

definition Packages_init ::
  "Parcel list \<Rightarrow> (string \<rightharpoonup> PackagePreset) option \<Rightarrow> string list option \<Rightarrow> error + Packages" where
  "Packages_init parcels presets req =
     (let its = build_items parcels presets
      in case req of
           None \<Rightarrow> Inr \<lparr>items = its\<rparr>
         | Some names \<Rightarrow>
             (case check_items 0 its names [] of
                Inl e \<Rightarrow> Inl e
              | Inr errors \<Rightarrow>
                  if errors \<noteq> [] then Inl (FieldError errors) else Inr \<lparr>items = its\<rparr>))"

definition Packages_single :: "Packages \<Rightarrow> error + Package" where
  "Packages_single ps =
     (if 1 < length (items ps) then Inl MultiParcelNotSupportedError
      else case items ps of [] \<Rightarrow> Inl IndexError | pkg # _ \<Rightarrow> Inr pkg)"

text \<open>
  The generator \<^verbatim>\<open>pkg.weight.LB for pkg in self._items if pkg.weight.value is not None\<close>
  summed from 0 by \<^verbatim>\<open>sum\<close>.
\<close>

fun sum_weights :: "Package list \<Rightarrow> rat \<Rightarrow> error + rat" where
  "sum_weights [] acc = Inr acc"
| "sum_weights (pkg # pkgs) acc =
     (case Package_weight pkg of
        Inl e \<Rightarrow> Inl e
      | Inr w \<Rightarrow>
          (case Weight_value w of
             Inl e \<Rightarrow> Inl e
           | Inr None \<Rightarrow> sum_weights pkgs acc
           | Inr (Some _) \<Rightarrow>
               (case py_add (Some acc) (Weight_LB w) of
                  Inl e \<Rightarrow> Inl e
                | Inr acc' \<Rightarrow> sum_weights pkgs acc')))"

definition Packages_weight :: "Packages \<Rightarrow> error + Weight" where
  "Packages_weight ps =
     (case sum_weights (items ps) 0 of
        Inl e \<Rightarrow> Inl e
      | Inr s \<Rightarrow> Inr \<lparr>w_value = py_or (Some s) None, w_unit = Some LB\<rparr>)"

subsection \<open>The specification's reading of the batch operations\<close>

text \<open>
  The violations the specification lists for \<^verbatim>\<open>Packages(parcels, presets, required)\<close>:
  one key \<^verbatim>\<open>parcel[index].field\<close> for every package, in order from \<open>index\<close>, and every
  required field whose value is missing.
\<close>

fun violation_keys :: "nat \<Rightarrow> Package list \<Rightarrow> string list \<Rightarrow> string list" where
  "violation_keys index [] req = []"
| "violation_keys index (pkg # pkgs) req =
     map (field_key index) (filter (\<lambda>field. field_missing pkg field = Inr True) req)
     @ violation_keys (Suc index) pkgs req"

text \<open>
  The pounds of one package when its weight resolves, and the total over the packages
  whose weight resolves.
\<close>

definition resolved_weight_LB :: "Package \<Rightarrow> rat option" where
  "resolved_weight_LB pkg =
     (case Package_weight pkg of
        Inl e \<Rightarrow> None
      | Inr w \<Rightarrow> (case Weight_value w of Inr (Some _) \<Rightarrow> Weight_LB w | _ \<Rightarrow> None))"

definition total_resolved_LB :: "Package list \<Rightarrow> rat" where
  "total_resolved_LB pkgs = sum_list (the_floats (map resolved_weight_LB pkgs))"

section \<open>Carrier response parsers\<close>

subsection \<open>Response trees and normalized models\<close>

text \<open>
  A parsed response is a tree of elements, each with an optional namespace, a local
  name, a text and its children in document order.
\<close>

datatype element =
  Element (el_namespace: "string option") (el_local_name: string)
    (el_text: "string option") (el_children: "element list")

text \<open>\<^verbatim>\<open>node.tag\<close>: the local name, qualified by the namespace in braces when there is one.\<close>

definition el_tag :: "element \<Rightarrow> string" where
  "el_tag e =
     (case el_namespace e of
        None \<Rightarrow> el_local_name e
      | Some ns \<Rightarrow> ''{'' @ ns @ ''}'' @ el_local_name e)"

fun descendants :: "element \<Rightarrow> element list" where
  "descendants (Element ns n t cs) = concat (map (\<lambda>c. c # descendants c) cs)"

text \<open>\<^verbatim>\<open>node.xpath(".//*[local-name() = $name]", name=n)\<close>\<close>

definition xpath_local_name :: "element \<Rightarrow> string \<Rightarrow> element list" where
  "xpath_local_name e n = filter (\<lambda>d. el_local_name d = n) (descendants e)"

text \<open>
  The models of \<^verbatim>\<open>purplship.core.models\<close> and the carrier settings, with the fields
  the parsers set or read.
\<close>

record Settings =
  settings_carrier :: "string option"
  settings_carrier_name :: "string option"
  settings_carrier_id :: "string option"

record Message =
  msg_carrier_name :: "string option"
  msg_carrier_id :: "string option"
  msg_code :: "string option"
  msg_message :: "string option"

record ChargeDetails =
  charge_name :: "string option"
  charge_amount :: "rat option"
  charge_currency :: "string option"

record RateDetails =
  rate_carrier_name :: "string option"
  rate_carrier_id :: "string option"
  rate_currency :: "string option"
  rate_transit_days :: "int option"
  rate_service :: "string option"
  rate_base_charge :: "rat option"
  rate_total_charge :: "rat option"
  rate_duties_and_taxes :: "rat option"
  rate_discount :: "rat option"
  rate_extra_charges :: "ChargeDetails list"


text \<open>Sequencing of calls that may raise, and list comprehensions over them.\<close>

definition bind_err :: "error + 'a \<Rightarrow> ('a \<Rightarrow> error + 'b) \<Rightarrow> error + 'b" where
  "bind_err r f = (case r of Inl e \<Rightarrow> Inl e | Inr a \<Rightarrow> f a)"

primrec map_err :: "('a \<Rightarrow> error + 'b) \<Rightarrow> 'a list \<Rightarrow> error + 'b list" where
  "map_err f [] = Inr []"
| "map_err f (x # xs) =
     bind_err (f x) (\<lambda>y. bind_err (map_err f xs) (\<lambda>ys. Inr (y # ys)))"

primrec filter_err :: "('a \<Rightarrow> error + bool) \<Rightarrow> 'a list \<Rightarrow> error + 'a list" where
  "filter_err f [] = Inr []"
| "filter_err f (x # xs) =
     bind_err (f x) (\<lambda>b. bind_err (filter_err f xs) (\<lambda>ys. Inr (if b then x # ys else ys)))"

text \<open>\<^verbatim>\<open>getattr\<close> on an object that may be \<^verbatim>\<open>None\<close>.\<close>

definition attr_of :: "'a option \<Rightarrow> ('a \<Rightarrow> 'b) \<Rightarrow> error + 'b" where
  "attr_of obj field = (case obj of None \<Rightarrow> Inl AttributeError | Some x \<Rightarrow> Inr (field x))"

text \<open>\<^verbatim>\<open>sub in s\<close> on strings; \<^verbatim>\<open>s\<close> being \<^verbatim>\<open>None\<close> raises TypeError.\<close>

fun substring :: "string \<Rightarrow> string \<Rightarrow> bool" where
  "substring sub [] = (sub = [])"
| "substring sub (c # cs) = (take (length sub) (c # cs) = sub \<or> substring sub cs)"

definition py_in_str :: "string \<Rightarrow> string option \<Rightarrow> error + bool" where
  "py_in_str sub s = (case s of None \<Rightarrow> Inl TypeError | Some t \<Rightarrow> Inr (substring sub t))"

subsection \<open>USPS error walker (\<^verbatim>\<open>providers/usps/error.py\<close>)\<close>

text \<open>
  The binding class \<^verbatim>\<open>pyusps.error.Error\<close> is generated code outside the repository:
  its \<^verbatim>\<open>build\<close> is a parameter. \<open>err_Number\<close> holds \<^verbatim>\<open>str(error.Number)\<close>.
\<close>

record Error =
  err_Number :: string
  err_Description :: "string option"

definition usps_parse_error_response ::
  "(element \<Rightarrow> Error) \<Rightarrow> element \<Rightarrow> Settings \<Rightarrow> Message list" where
  "usps_parse_error_response build_Error response settings =
     (let error_nodes =
            map build_Error
              (if el_tag response = ''Error'' then [response]
               else xpath_local_name response ''Error'')
      in map (\<lambda>error.
                \<lparr>msg_carrier_name = settings_carrier_name settings,
                 msg_carrier_id = settings_carrier_id settings,
                 msg_code = Some (err_Number error),
                 msg_message = err_Description error\<rparr>)
           error_nodes)"

subsection \<open>DHL rate quotes (\<^verbatim>\<open>providers/dhl/dct_quote.py\<close>)\<close>

text \<open>The fields of the generated \<^verbatim>\<open>QtdShpType\<close> that the parser reads.\<close>

record QtdShpExChrgType =
  LocalServiceTypeName :: "string option"
  ChargeValue :: "rat option"

record DeliveryDateType =
  DlvyDateTime :: "string option"

record QtdShpType =
  ShippingCharge :: "rat option"
  WeightCharge :: "rat option"
  CurrencyCode :: "string option"
  QtdShpExChrg :: "QtdShpExChrgType list"
  DeliveryDate :: "DeliveryDateType list"
  PricingDate :: "string option"
  LocalProductName :: "string option"

text \<open>
  What the parser takes from outside \<^verbatim>\<open>dct_quote.py\<close>: the generated
  \<^verbatim>\<open>QtdShpType.build\<close>, the date helper \<^verbatim>\<open>to_date\<close> (value and format, the format
  \<^verbatim>\<open>None\<close> when defaulted) with the day difference of two of its dates, the members
  (name, value) of the enumeration \<^verbatim>\<open>Product\<close> in order, and the carrier's
  \<^verbatim>\<open>parse_error_response\<close>.
\<close>

record 'd dhl_env =
  build_QtdShp :: "element \<Rightarrow> QtdShpType"
  to_date :: "string option \<Rightarrow> string option \<Rightarrow> error + 'd option"
  days_between :: "'d \<Rightarrow> 'd \<Rightarrow> int"
  Product :: "(string \<times> string) list"
  dhl_parse_error_response :: "element \<Rightarrow> Settings \<Rightarrow> Message list"

text \<open>
  \<^verbatim>\<open>reduce(lambda d, ec: d + ec.amount if key in ec.name else d, ExtraCharges, 0.0)\<close>
\<close>

fun sum_matching :: "string \<Rightarrow> ChargeDetails list \<Rightarrow> rat \<Rightarrow> error + rat" where
  "sum_matching key [] d = Inr d"
| "sum_matching key (ec # ecs) d =
     bind_err (py_in_str key (charge_name ec)) (\<lambda>hit.
       if hit then bind_err (py_add (Some d) (charge_amount ec)) (\<lambda>d'. sum_matching key ecs d')
       else sum_matching key ecs d)"

text \<open>\<^verbatim>\<open>next((p.name for p in Product if p.value in name), name)\<close>\<close>

fun find_product :: "(string \<times> string) list \<Rightarrow> string option \<Rightarrow> error + string option" where
  "find_product [] name = Inr name"
| "find_product ((pname, pvalue) # ps) name =
     bind_err (py_in_str pvalue name) (\<lambda>hit.
       if hit then Inr (Some pname) else find_product ps name)"

definition extract_quote :: "'d dhl_env \<Rightarrow> element \<Rightarrow> Settings \<Rightarrow> error + RateDetails option" where
  "extract_quote env qtdshp_node settings =
     (let qtdshp = build_QtdShp env qtdshp_node
      in if ShippingCharge qtdshp = None \<or> ShippingCharge qtdshp = Some 0 then Inr None
         else
           let ExtraCharges =
                 map (\<lambda>s. \<lparr>charge_name = LocalServiceTypeName s,
                            charge_amount = decimal (py_or (ChargeValue s) (Some 0)),
                            charge_currency = None\<rparr>)
                   (QtdShpExChrg qtdshp)
           in
           bind_err (sum_matching ''Discount'' ExtraCharges 0) (\<lambda>Discount.
           bind_err (sum_matching ''TAXES PAID'' ExtraCharges 0) (\<lambda>DutiesAndTaxes.
           bind_err (case DeliveryDate qtdshp of
                       [] \<Rightarrow> Inl IndexError
                     | dd # _ \<Rightarrow> to_date env (DlvyDateTime dd) (Some ''%Y-%m-%d %H:%M:%S''))
             (\<lambda>delivery_date.
           bind_err (to_date env (PricingDate qtdshp) None) (\<lambda>pricing_date.
           let transit =
                 (case (delivery_date, pricing_date) of
                    (Some dd, Some pd) \<Rightarrow> Some (days_between env dd pd)
                  | _ \<Rightarrow> None)
           in
           bind_err (find_product (Product env) (LocalProductName qtdshp)) (\<lambda>service_name.
             Inr (Some
               \<lparr>rate_carrier_name = settings_carrier_name settings,
                rate_carrier_id = settings_carrier_id settings,
                rate_currency = CurrencyCode qtdshp,
                rate_transit_days = transit,
                rate_service = service_name,
                rate_base_charge = decimal (WeightCharge qtdshp),
                rate_total_charge = decimal (ShippingCharge qtdshp),
                rate_duties_and_taxes = decimal (Some DutiesAndTaxes),
                rate_discount = decimal (Some Discount),
                rate_extra_charges =
                  map (\<lambda>s. \<lparr>charge_name = LocalServiceTypeName s,
                             charge_amount = decimal (ChargeValue s),
                             charge_currency = CurrencyCode qtdshp\<rparr>)
                    (QtdShpExChrg qtdshp)\<rparr>)))))))"

text \<open>
  The guard of \<^verbatim>\<open>_extract_quote\<close>, negated: the record has a shipping charge and it
  is not zero.
\<close>

definition quote_offered :: "'d dhl_env \<Rightarrow> element \<Rightarrow> bool" where
  "quote_offered env node =
     (ShippingCharge (build_QtdShp env node) \<noteq> None
      \<and> ShippingCharge (build_QtdShp env node) \<noteq> Some 0)"

definition parse_dct_response ::
  "'d dhl_env \<Rightarrow> element \<Rightarrow> Settings \<Rightarrow> error + (RateDetails list \<times> Message list)" where
  "parse_dct_response env response settings =
     (let qtdshp_list = xpath_local_name response ''QtdShp''
      in bind_err (map_err (\<lambda>qtdshp_node. extract_quote env qtdshp_node settings) qtdshp_list)
           (\<lambda>quotes.
              Inr (map the (filter (\<lambda>quote. quote \<noteq> None) quotes),
                   dhl_parse_error_response env response settings)))"

subsection \<open>UPS freight rates (\<^verbatim>\<open>providers/ups/freight/freight_rate.py\<close>)\<close>

text \<open>The fields of the generated \<^verbatim>\<open>FreightRateResponse\<close> that the parser reads.\<close>

record CodeType =
  Code :: "string option"

record FactorType =
  Value :: "rat option"
  UnitOfMeasurement :: "CodeType option"

record RateType =
  Type :: "CodeType option"
  Factor :: "FactorType option"

record TotalShipmentChargeType =
  MonetaryValue :: "rat option"

record ServiceType =
  Description :: "string option"

record FreightRateResponse =
  Rate :: "RateType list"
  TotalShipmentCharge :: "TotalShipmentChargeType option"
  Service :: "ServiceType option"

record ups_env =
  build_FreightRateResponse :: "element \<Rightarrow> FreightRateResponse"
  ups_parse_error_response :: "element \<Rightarrow> Settings \<Rightarrow> Message list"

definition rate_code :: "RateType \<Rightarrow> error + string option" where
  "rate_code r = attr_of (Type r) Code"

definition rate_factor_value :: "RateType \<Rightarrow> error + rat option" where
  "rate_factor_value r = attr_of (Factor r) Value"

definition rate_charge :: "RateType \<Rightarrow> error + ChargeDetails" where
  "rate_charge r =
     bind_err (rate_code r) (\<lambda>name.
     bind_err (attr_of (Factor r) UnitOfMeasurement) (\<lambda>uom.
     bind_err (attr_of uom Code) (\<lambda>currency.
     bind_err (rate_factor_value r) (\<lambda>v.
       Inr \<lparr>charge_name = name, charge_amount = decimal v, charge_currency = currency\<rparr>))))"

text \<open>
  \<^verbatim>\<open>[ChargeDetails(...) for r in detail.Rate if cond(r.Type.Code)]\<close>: the condition, then
  the element, rate by rate.
\<close>

fun charges_where :: "(string option \<Rightarrow> bool) \<Rightarrow> RateType list \<Rightarrow> error + ChargeDetails list" where
  "charges_where cond [] = Inr []"
| "charges_where cond (r # rs) =
     bind_err (rate_code r) (\<lambda>c.
       if cond c
       then bind_err (rate_charge r) (\<lambda>ch.
              bind_err (charges_where cond rs) (\<lambda>chs. Inr (ch # chs)))
       else charges_where cond rs)"

text \<open>\<^verbatim>\<open>reduce(lambda r, c: r + c.amount, charges, 0.0)\<close>\<close>

fun sum_amounts :: "ChargeDetails list \<Rightarrow> rat \<Rightarrow> error + rat" where
  "sum_amounts [] r = Inr r"
| "sum_amounts (c # cs) r = bind_err (py_add (Some r) (charge_amount c)) (\<lambda>r'. sum_amounts cs r')"

definition extract_freight_rate :: "ups_env \<Rightarrow> element \<Rightarrow> Settings \<Rightarrow> error + RateDetails" where
  "extract_freight_rate env detail_node settings =
     (let detail = build_FreightRateResponse env detail_node
      in
      bind_err (filter_err (\<lambda>r. bind_err (rate_code r) (\<lambda>c. Inr (c = Some ''AFTR_DSCNT'')))
                  (Rate detail)) (\<lambda>after.
      bind_err (case after of [] \<Rightarrow> Inl IndexError | r # _ \<Rightarrow> Inr r) (\<lambda>total_charge.
      bind_err (charges_where (\<lambda>c. c = Some ''DSCNT'') (Rate detail)) (\<lambda>Discounts.
      bind_err (charges_where
                  (\<lambda>c. c \<notin> set [Some ''DSCNT'', Some ''AFTR_DSCNT'', Some ''DSCNT_RATE'',
                                 Some ''LND_GROSS''])
                  (Rate detail)) (\<lambda>Surcharges.
      let extra_charges = Discounts @ Surcharges
      in
      bind_err (case xpath_local_name detail_node ''CurrencyCode'' of
                  [] \<Rightarrow> Inl StopIteration
                | c # _ \<Rightarrow> Inr (el_text c)) (\<lambda>currency.
      bind_err (attr_of (Service detail) Description) (\<lambda>service.
      bind_err (attr_of (TotalShipmentCharge detail) MonetaryValue) (\<lambda>base.
      bind_err (rate_factor_value total_charge) (\<lambda>total.
      bind_err (sum_amounts Surcharges 0) (\<lambda>duties.
      bind_err (sum_amounts Discounts 0) (\<lambda>discount.
        Inr \<lparr>rate_carrier_name = settings_carrier_name settings,
             rate_carrier_id = settings_carrier_id settings,
             rate_currency = currency,
             rate_transit_days = None,
             rate_service = service,
             rate_base_charge = decimal base,
             rate_total_charge = decimal (py_or total (Some 0)),
             rate_duties_and_taxes = decimal (Some duties),
             rate_discount = decimal (Some discount),
             rate_extra_charges = extra_charges\<rparr>)))))))))))"

definition parse_freight_rate_response ::
  "ups_env \<Rightarrow> element \<Rightarrow> Settings \<Rightarrow> error + (RateDetails list \<times> Message list)" where
  "parse_freight_rate_response env response settings =
     (let rate_reply = xpath_local_name response ''FreightRateResponse''
      in bind_err (map_err (\<lambda>detail_node. extract_freight_rate env detail_node settings) rate_reply)
           (\<lambda>rates. Inr (rates, ups_parse_error_response env response settings)))"

subsection \<open>Canada Post pickup cancellation (\<^verbatim>\<open>carriers/canadapost/pickup/cancel_pickup.py\<close>)\<close>


section \<open>Default objects and sample responses\<close>

text \<open>\<^verbatim>\<open>Parcel()\<close>: every field at its default \<^verbatim>\<open>None\<close>.\<close>

definition default_Parcel :: Parcel where
  "default_Parcel =
     \<lparr>parcel_weight = None, parcel_width = None, parcel_height = None, parcel_length = None,
      parcel_packaging_type = None, parcel_package_preset = None,
      parcel_weight_unit = None, parcel_dimension_unit = None\<rparr>"

text \<open>
  Sample settings and responses. The generated \<^verbatim>\<open>build\<close> methods are stood in for
  by builders that fix the record: the DHL one reads the shipping charge off the text
  of the node (no text: absent, \<^verbatim>\<open>0.00\<close>: zero, anything else: 25.50), the UPS one
  builds one rate after discount, valued zero when the node holds a \<^verbatim>\<open>Value\<close>
  element and without a value when it holds none. The error walker of the USPS
  adapter stands in for the walker of each carrier.
\<close>

definition sample_settings :: Settings where
  "sample_settings =
     \<lparr>settings_carrier = Some ''carrier'', settings_carrier_name = Some ''carrier'',
      settings_carrier_id = Some ''carrier-id''\<rparr>"

definition sample_build_Error :: "element \<Rightarrow> Error" where
  "sample_build_Error node = \<lparr>err_Number = ''1001'', err_Description = el_text node\<rparr>"

definition sample_build_QtdShp :: "element \<Rightarrow> QtdShpType" where
  "sample_build_QtdShp node =
     \<lparr>ShippingCharge =
        (if el_text node = None then None
         else if el_text node = Some ''0.00'' then Some 0 else Some 25.5),
      WeightCharge = Some 20,
      CurrencyCode = Some ''USD'',
      QtdShpExChrg = [\<lparr>LocalServiceTypeName = Some ''FUEL SURCHARGE'', ChargeValue = Some 5.5\<rparr>],
      DeliveryDate = [\<lparr>DlvyDateTime = None\<rparr>],
      PricingDate = None,
      LocalProductName = Some ''EXPRESS WORLDWIDE''\<rparr>"

definition sample_dhl_env :: "int dhl_env" where
  "sample_dhl_env =
     \<lparr>build_QtdShp = sample_build_QtdShp,
      to_date = (\<lambda>v f. Inr None),
      days_between = (\<lambda>a b. a - b),
      Product = [],
      dhl_parse_error_response = usps_parse_error_response sample_build_Error\<rparr>"

definition sample_dhl_response :: element where
  "sample_dhl_response =
     Element None ''DCTResponse'' None
       [Element None ''QtdShp'' (Some ''25.50'') [],
        Element None ''QtdShp'' (Some ''0.00'') [],
        Element None ''QtdShp'' None [],
        Element None ''Error'' (Some ''Partial result'') []]"

text \<open>Elements without a namespace: one holding a text, one holding children.\<close>

definition leaf :: "string \<Rightarrow> string \<Rightarrow> element" where
  "leaf name txt = Element None name (Some txt) []"

definition branch :: "string \<Rightarrow> element list \<Rightarrow> element" where
  "branch name nodes = Element None name None nodes"

definition sample_build_FreightRateResponse :: "element \<Rightarrow> FreightRateResponse" where
  "sample_build_FreightRateResponse node =
     \<lparr>Rate =
        [\<lparr>Type = Some \<lparr>Code = Some ''AFTR_DSCNT''\<rparr>,
          Factor =
            Some \<lparr>Value = (if xpath_local_name node ''Value'' = [] then None else Some 0),
                  UnitOfMeasurement = Some \<lparr>Code = Some ''USD''\<rparr>\<rparr>\<rparr>],
      TotalShipmentCharge = Some \<lparr>MonetaryValue = Some 0\<rparr>,
      Service = Some \<lparr>Description = Some ''LTL''\<rparr>\<rparr>"

definition sample_ups_env :: ups_env where
  "sample_ups_env =
     \<lparr>build_FreightRateResponse = sample_build_FreightRateResponse,
      ups_parse_error_response = usps_parse_error_response sample_build_Error\<rparr>"

definition sample_freight_zero :: element where
  "sample_freight_zero =
     branch ''FreightRateResponse''
       [branch ''Service'' [leaf ''Description'' ''LTL''],
        branch ''Rate''
          [branch ''Type'' [leaf ''Code'' ''AFTR_DSCNT''],
           branch ''Factor''
             [leaf ''Value'' ''0.00'',
              branch ''UnitOfMeasurement'' [leaf ''Code'' ''USD'']]],
        branch ''TotalShipmentCharge''
          [leaf ''CurrencyCode'' ''USD'', leaf ''MonetaryValue'' ''0.00'']]"

definition sample_freight_absent :: element where
  "sample_freight_absent =
     branch ''FreightRateResponse''
       [branch ''Service'' [leaf ''Description'' ''LTL''],
        branch ''Rate''
          [branch ''Type'' [leaf ''Code'' ''AFTR_DSCNT''],
           branch ''Factor'' [branch ''UnitOfMeasurement'' [leaf ''Code'' ''USD'']]],
        branch ''TotalShipmentCharge''
          [leaf ''CurrencyCode'' ''USD'', leaf ''MonetaryValue'' ''0.00'']]"

definition sample_ups_response :: element where
  "sample_ups_response = branch ''Envelope'' [sample_freight_zero, sample_freight_absent]"



section \<open>Arithmetic of the rounding\<close>

lemma floor_rat_numeral_divide:
  "\<lfloor>(numeral a :: rat) / numeral b\<rfloor> = numeral a div numeral b"
  by (metis floor_divide_of_int_eq of_int_numeral)

lemma floor_rat_minus_numeral_divide:
  "\<lfloor>- ((numeral a :: rat) / numeral b)\<rfloor> = - numeral a div numeral b"
  by (metis divide_minus_left floor_divide_of_int_eq of_int_neg_numeral of_int_numeral)

lemma floor_rat_one_divide:
  "\<lfloor>1 / (numeral b :: rat)\<rfloor> = 1 div numeral b"
  by (metis floor_divide_of_int_eq of_int_1 of_int_numeral)

lemma floor_rat_minus_one_divide:
  "\<lfloor>- (1 / (numeral b :: rat))\<rfloor> = - 1 div numeral b"
  by (metis divide_minus_left floor_divide_of_int_eq of_int_1 of_int_minus of_int_numeral)

lemmas round2_eval =
  round2_def round_half_even_def Let_def
  floor_rat_numeral_divide floor_rat_minus_numeral_divide
  floor_rat_one_divide floor_rat_minus_one_divide

lemma round_half_even_close: "\<bar>of_int (round_half_even x) - x\<bar> \<le> 1 / 2"
proof -
  define f where "f = \<lfloor>x\<rfloor>"
  have lo: "of_int f \<le> x" and hi: "x < of_int f + 1"
    unfolding f_def by linarith+
  have "round_half_even x =
      (if x - of_int f < 1 / 2 then f
       else if 1 / 2 < x - of_int f then f + 1
       else if even f then f else f + 1)"
    unfolding round_half_even_def Let_def f_def ..
  then show ?thesis
    using lo hi by (simp add: abs_le_iff)
qed

lemma round2_close: "\<bar>round2 x - x\<bar> \<le> 1 / 200"
proof -
  have "\<bar>of_int (round_half_even (x * 100)) - x * 100\<bar> \<le> 1 / 2"
    by (rule round_half_even_close)
  then show ?thesis
    unfolding round2_def by (simp add: field_simps abs_le_iff)
qed

lemma py_sort_None: "2 \<le> length xs \<Longrightarrow> None \<in> set xs \<Longrightarrow> py_sort xs = Inl TypeError"
  by (simp add: py_sort_def)

section \<open>Dimension conversions\<close>

text \<open>
  Claim C1. \<^verbatim>\<open>Dimension(v, IN).CM\<close> should be \<open>v \<times> 2.54\<close> and
  \<^verbatim>\<open>Dimension(v, CM).IN\<close> should be \<open>v \<times> 0.393701\<close>, rounded to 2 decimals. The code
  has the two factors exchanged: one inch comes out as 0.39 centimetres and one
  centimetre as 2.54 inches, where the factors of the claim give 2.54 and 0.39.
\<close>

theorem dimension_conversion_factors_exchanged:
  "Dimension_CM \<lparr>d_value = Some 1, d_unit = Some IN\<rparr> = Some 0.39
   \<and> Dimension_IN \<lparr>d_value = Some 1, d_unit = Some CM\<rparr> = Some 2.54
   \<and> decimal (Some (1 * 2.54)) = Some 2.54
   \<and> decimal (Some (1 * 0.393701)) = Some 0.39"
  by (simp add: Dimension_CM_def Dimension_IN_def decimal_def round2_eval)

section \<open>Volume and girth with absent sides\<close>

text \<open>
  Claim C8. \<^verbatim>\<open>Volume.value\<close> should be null as soon as one side is null. The guard
  \<^verbatim>\<open>not any([...])\<close> only catches the case where no side has a non-zero value: with
  the middle side absent and the other two present, the product of the sides in
  meters multiplies by \<^verbatim>\<open>None\<close> and raises TypeError.
\<close>

theorem volume_partial_absence_raises:
  "Volume_value
     \<lparr>v_side1 = \<lparr>d_value = Some 10, d_unit = Some CM\<rparr>,
      v_side2 = \<lparr>d_value = None, d_unit = Some CM\<rparr>,
      v_side3 = \<lparr>d_value = Some 10, d_unit = Some CM\<rparr>\<rparr> = Inl TypeError"
  by (simp add: Volume_value_def Dimension_value_def Dimension_CM_def Dimension_M_def
      decimal_def truthy_def py_mul_def round2_eval)

text \<open>
  Claim C10. \<^verbatim>\<open>Girth.value\<close> returns null exactly when all three sides converted to
  CM are falsy (null or zero); when one converted side is null while another is
  non-null and non-zero, the sort raises TypeError.
\<close>

theorem girth_value_null_or_type_error:
  "(Girth_value g = Inr None \<longleftrightarrow>
      \<not> truthy (Dimension_CM (g_side1 g)) \<and> \<not> truthy (Dimension_CM (g_side2 g))
      \<and> \<not> truthy (Dimension_CM (g_side3 g)))
   \<and> ((Dimension_CM (g_side1 g) = None \<or> Dimension_CM (g_side2 g) = None
        \<or> Dimension_CM (g_side3 g) = None)
       \<and> (truthy (Dimension_CM (g_side1 g)) \<or> truthy (Dimension_CM (g_side2 g))
          \<or> truthy (Dimension_CM (g_side3 g)))
       \<longrightarrow> Girth_value g = Inl TypeError)"
proof -
  define a where "a = Dimension_CM (g_side1 g)"
  define b where "b = Dimension_CM (g_side2 g)"
  define c where "c = Dimension_CM (g_side3 g)"
  have sides: "Girth_sides g = [a, b, c]"
    by (simp add: Girth_sides_def a_def b_def c_def)
  have raised: "Girth_value g = Inl TypeError"
    if "a = None \<or> b = None \<or> c = None" and "truthy a \<or> truthy b \<or> truthy c"
  proof -
    from that(1) have "py_sort [a, b, c] = Inl TypeError"
      by (intro py_sort_None) auto
    with that(2) show ?thesis
      by (simp add: Girth_value_def sides)
  qed
  have some: "\<exists>x. Girth_value g = Inl TypeError \<or> Girth_value g = Inr (Some x)"
    if "truthy a \<or> truthy b \<or> truthy c"
  proof (cases "a = None \<or> b = None \<or> c = None")
    case True
    with that raised show ?thesis by blast
  next
    case False
    then obtain x y z where "a = Some x" "b = Some y" "c = Some z" by auto
    then have "\<exists>u v w. py_sort [a, b, c] = Inr [Some u, Some v, Some w]"
      by (simp add: py_sort_def)
    with that show ?thesis
      by (auto simp: Girth_value_def sides py_add_def decimal_def)
  qed
  have null: "Girth_value g = Inr None" if "\<not> truthy a" "\<not> truthy b" "\<not> truthy c"
    using that by (simp add: Girth_value_def sides)
  have "Girth_value g = Inr None \<longleftrightarrow> \<not> truthy a \<and> \<not> truthy b \<and> \<not> truthy c"
    using some null by (metis Inl_Inr_False option.distinct(1) sum.inject(2))
  with raised show ?thesis
    unfolding a_def b_def c_def by blast
qed

text \<open>
  Claim C10 at sides of 10 cm, absent and 0 cm: one converted side is null, another
  is non-zero, and the accessor raises TypeError.
\<close>

theorem girth_value_null_or_type_error_witness:
  "Girth_value
     \<lparr>g_side1 = \<lparr>d_value = Some 10, d_unit = Some CM\<rparr>,
      g_side2 = \<lparr>d_value = None, d_unit = Some CM\<rparr>,
      g_side3 = \<lparr>d_value = Some 0, d_unit = Some CM\<rparr>\<rparr> = Inl TypeError"
  using girth_value_null_or_type_error
    [of "\<lparr>g_side1 = \<lparr>d_value = Some 10, d_unit = Some CM\<rparr>,
      g_side2 = \<lparr>d_value = None, d_unit = Some CM\<rparr>,
      g_side3 = \<lparr>d_value = Some 0, d_unit = Some CM\<rparr>\<rparr>"]
  by (simp add: Dimension_CM_def decimal_def truthy_def round2_eval)

section \<open>The single-parcel accessor\<close>

text \<open>
  Claim C9, as stated, lets \<^verbatim>\<open>Packages.single\<close> succeed on every collection of at
  most one package. On the empty collection \<^verbatim>\<open>self._items[0]\<close> raises IndexError.
\<close>

theorem single_empty_collection_raises:
  "Packages_single \<lparr>items = []\<rparr> = Inl IndexError"
  by (simp add: Packages_single_def)

text \<open>
  Claim C9, amended. \<^verbatim>\<open>Packages.single\<close> fails with the multi-parcel error if and
  only if the collection has more than one package; on a collection of exactly one
  package it returns that package; on the empty collection it raises IndexError.
\<close>

theorem single_multi_parcel_iff:
  "(Packages_single ps = Inl MultiParcelNotSupportedError \<longleftrightarrow> 1 < length (items ps))
   \<and> (\<forall>pkg. items ps = [pkg] \<longrightarrow> Packages_single ps = Inr pkg)
   \<and> (items ps = [] \<longrightarrow> Packages_single ps = Inl IndexError)"
  by (cases "items ps") (auto simp: Packages_single_def)

text \<open>Claim C9, amended, on the collection holding the one default parcel.\<close>

theorem single_multi_parcel_iff_witness:
  "Packages_single \<lparr>items = [Package_init default_Parcel None]\<rparr>
     = Inr (Package_init default_Parcel None)
   \<and> Packages_single \<lparr>items = [Package_init default_Parcel None, Package_init default_Parcel None]\<rparr>
     = Inl MultiParcelNotSupportedError"
  using single_multi_parcel_iff [of "\<lparr>items = [Package_init default_Parcel None]\<rparr>"]
    single_multi_parcel_iff
      [of "\<lparr>items = [Package_init default_Parcel None, Package_init default_Parcel None]\<rparr>"]
  by simp

section \<open>Evaluation and loop lemmas\<close>

lemmas package_eval =
  Package_weight_def Package_weight_unit_def Package_width_def Package_height_def
  Package_length_def Package_girth_def Package_dimension_unit_def Package_init_def
  default_Parcel_def default_PackagePreset_def WeightUnit_lookup_def DimensionUnit_lookup_def
  py_or_def py_or_str_def truthy_def truthy_str_def

lemmas measure_eval =
  Weight_value_def Weight_KG_def Weight_LB_def Dimension_value_def Dimension_CM_def
  Dimension_IN_def decimal_def

lemma str_nat_digit: "n < 10 \<Longrightarrow> str_nat n = [digit_char n]"
  by (simp add: str_nat.simps)

lemma dict_update_set: "set (dict_update k v errs) = insert (k, v) (set errs)"
proof (induction errs)
  case Nil
  then show ?case by simp
next
  case (Cons kv errs)
  obtain k' v' where kv: "kv = (k', v')" by (cases kv)
  have "v' = v" by (cases v; cases v') simp
  with Cons kv show ?case by auto
qed

lemma dict_update_keys: "fst ` set (dict_update k v errs) = insert k (fst ` set errs)"
  by (simp add: dict_update_set)

lemma dict_update_distinct:
  "distinct (map fst errs) \<Longrightarrow> distinct (map fst (dict_update k v errs))"
proof (induction errs)
  case Nil
  then show ?case by simp
next
  case (Cons kv errs)
  obtain k' v' where kv: "kv = (k', v')" by (cases kv)
  show ?case
  proof (cases "k = k'")
    case True
    with Cons.prems kv show ?thesis by simp
  next
    case False
    have "k' \<notin> fst ` set (dict_update k v errs)"
      using Cons.prems kv False by (simp add: dict_update_keys)
    with Cons kv False show ?thesis by simp
  qed
qed

lemma check_fields_ok:
  assumes "\<forall>f \<in> set fs. \<exists>m. field_missing pkg f = Inr m"
  shows "\<exists>errs'. check_fields i pkg fs errs = Inr errs'
           \<and> fst ` set errs' =
               fst ` set errs \<union> field_key i ` {f \<in> set fs. field_missing pkg f = Inr True}
           \<and> (distinct (map fst errs) \<longrightarrow> distinct (map fst errs'))"
  using assms
proof (induction fs arbitrary: errs)
  case Nil
  then show ?case by simp
next
  case (Cons f fs)
  from Cons.prems obtain m where m: "field_missing pkg f = Inr m" by auto
  from Cons.prems have tl: "\<forall>g \<in> set fs. \<exists>m. field_missing pkg g = Inr m" by simp
  define errs1 where
    "errs1 = (if m then dict_update (field_key i f) required errs else errs)"
  have step: "check_fields i pkg (f # fs) errs = check_fields i pkg fs errs1"
    by (simp add: m errs1_def)
  have keys1: "fst ` set errs1 = fst ` set errs \<union> (if m then {field_key i f} else {})"
    by (simp add: errs1_def dict_update_keys)
  have dist1: "distinct (map fst errs) \<longrightarrow> distinct (map fst errs1)"
    by (simp add: errs1_def dict_update_distinct)
  from Cons.IH [OF tl, of errs1] obtain errs' where
    run: "check_fields i pkg fs errs1 = Inr errs'"
    and keys: "fst ` set errs' =
       fst ` set errs1 \<union> field_key i ` {f \<in> set fs. field_missing pkg f = Inr True}"
    and dist: "distinct (map fst errs1) \<longrightarrow> distinct (map fst errs')"
    by blast
  have hd: "{g \<in> set (f # fs). field_missing pkg g = Inr True}
      = (if m then {f} else {}) \<union> {g \<in> set fs. field_missing pkg g = Inr True}"
    using m by auto
  have "fst ` set errs' =
      fst ` set errs \<union> field_key i ` {g \<in> set (f # fs). field_missing pkg g = Inr True}"
    unfolding keys keys1 hd by (simp add: image_Un Un_assoc)
  moreover have "check_fields i pkg (f # fs) errs = Inr errs'"
    using step run by simp
  moreover have "distinct (map fst errs) \<longrightarrow> distinct (map fst errs')"
    using dist1 dist by blast
  ultimately show ?case by blast
qed

lemma check_items_ok:
  assumes "\<forall>pkg \<in> set pkgs. \<forall>f \<in> set fs. \<exists>m. field_missing pkg f = Inr m"
  shows "\<exists>errs'. check_items i pkgs fs errs = Inr errs'
           \<and> fst ` set errs' = fst ` set errs \<union> set (violation_keys i pkgs fs)
           \<and> (distinct (map fst errs) \<longrightarrow> distinct (map fst errs'))"
  using assms
proof (induction pkgs arbitrary: i errs)
  case Nil
  then show ?case by simp
next
  case (Cons pkg pkgs)
  from Cons.prems have hd: "\<forall>f \<in> set fs. \<exists>m. field_missing pkg f = Inr m" by simp
  from Cons.prems have tl:
    "\<forall>p \<in> set pkgs. \<forall>f \<in> set fs. \<exists>m. field_missing p f = Inr m" by simp
  from check_fields_ok [OF hd, of i errs] obtain errs1 where
    one: "check_fields i pkg fs errs = Inr errs1"
    and keys1: "fst ` set errs1 =
       fst ` set errs \<union> field_key i ` {f \<in> set fs. field_missing pkg f = Inr True}"
    and dist1: "distinct (map fst errs) \<longrightarrow> distinct (map fst errs1)"
    by blast
  from Cons.IH [OF tl, of "Suc i" errs1] obtain errs' where
    run: "check_items (Suc i) pkgs fs errs1 = Inr errs'"
    and keys: "fst ` set errs' = fst ` set errs1 \<union> set (violation_keys (Suc i) pkgs fs)"
    and dist: "distinct (map fst errs1) \<longrightarrow> distinct (map fst errs')"
    by blast
  have vk: "set (violation_keys i (pkg # pkgs) fs) =
      field_key i ` {f \<in> set fs. field_missing pkg f = Inr True}
      \<union> set (violation_keys (Suc i) pkgs fs)"
    by auto
  have "fst ` set errs' = fst ` set errs \<union> set (violation_keys i (pkg # pkgs) fs)"
    unfolding keys keys1 vk by (simp add: Un_assoc)
  moreover have "check_items i (pkg # pkgs) fs errs = Inr errs'"
    using one run by simp
  moreover have "distinct (map fst errs) \<longrightarrow> distinct (map fst errs')"
    using dist1 dist by blast
  ultimately show ?case by blast
qed

lemma violation_keys_set:
  "set (violation_keys i pkgs fs) =
     {field_key (i + j) f | j f.
        j < length pkgs \<and> f \<in> set fs \<and> field_missing (pkgs ! j) f = Inr True}"
proof (induction pkgs arbitrary: i)
  case Nil
  then show ?case by simp
next
  case (Cons pkg pkgs)
  let ?A = "field_key i ` {f \<in> set fs. field_missing pkg f = Inr True}"
  let ?B = "{field_key (Suc i + j) f | j f.
           j < length pkgs \<and> f \<in> set fs \<and> field_missing (pkgs ! j) f = Inr True}"
  let ?L = "{field_key (i + j) f | j f.
        j < length (pkg # pkgs) \<and> f \<in> set fs \<and> field_missing ((pkg # pkgs) ! j) f = Inr True}"
  have "?L = ?A \<union> ?B"
  proof (intro equalityI subsetI)
    fix k assume "k \<in> ?L"
    then obtain j f where jf: "k = field_key (i + j) f" "j < length (pkg # pkgs)" "f \<in> set fs"
      "field_missing ((pkg # pkgs) ! j) f = Inr True" by blast
    show "k \<in> ?A \<union> ?B"
    proof (cases j)
      case 0
      with jf have "k \<in> ?A" by simp
      then show ?thesis by blast
    next
      case (Suc j')
      with jf have "k = field_key (Suc i + j') f" "j' < length pkgs"
        "field_missing (pkgs ! j') f = Inr True" by simp_all
      with jf(3) have "k \<in> ?B" by blast
      then show ?thesis by blast
    qed
  next
    fix k assume "k \<in> ?A \<union> ?B"
    then consider "k \<in> ?A" | "k \<in> ?B" by blast
    then show "k \<in> ?L"
    proof cases
      case 1
      then obtain f where "k = field_key (i + 0) f" "0 < length (pkg # pkgs)" "f \<in> set fs"
        "field_missing ((pkg # pkgs) ! 0) f = Inr True" by auto
      then show ?thesis by blast
    next
      case 2
      then obtain j f where "k = field_key (i + Suc j) f" "Suc j < length (pkg # pkgs)"
        "f \<in> set fs" "field_missing ((pkg # pkgs) ! Suc j) f = Inr True" by auto
      then show ?thesis by blast
    qed
  qed
  moreover have "set (violation_keys i (pkg # pkgs) fs) = ?A \<union> ?B"
    using Cons [of "Suc i"] by simp
  ultimately show ?case by simp
qed

lemma sum_weights_total:
  assumes "\<forall>pkg \<in> set pkgs. \<exists>u. Package_weight_unit pkg = Inr u"
  shows "sum_weights pkgs acc = Inr (acc + total_resolved_LB pkgs)"
  using assms
proof (induction pkgs arbitrary: acc)
  case Nil
  then show ?case by (simp add: total_resolved_LB_def)
next
  case (Cons pkg pkgs)
  then obtain u where u: "Package_weight_unit pkg = Inr u" by auto
  define v where "v = py_or (parcel_weight (parcel pkg)) (preset_weight (preset pkg))"
  have w: "Package_weight pkg = Inr \<lparr>w_value = v, w_unit = Some u\<rparr>"
    by (simp add: Package_weight_def u v_def)
  have rest: "sum_weights pkgs acc' = Inr (acc' + total_resolved_LB pkgs)" for acc'
    using Cons by simp
  show ?case
  proof (cases v)
    case None
    then have "resolved_weight_LB pkg = None"
      by (cases u) (simp_all add: resolved_weight_LB_def w Weight_value_def Weight_KG_def Weight_LB_def)
    moreover have "sum_weights (pkg # pkgs) acc = sum_weights pkgs acc"
      using None by (cases u) (simp_all add: w Weight_value_def Weight_KG_def Weight_LB_def)
    ultimately show ?thesis
      by (simp add: rest total_resolved_LB_def)
  next
    case (Some x)
    then obtain y where y: "Weight_LB \<lparr>w_value = v, w_unit = Some u\<rparr> = Some y"
      by (cases u) (simp_all add: Weight_LB_def decimal_def)
    have res: "\<exists>z. Weight_value \<lparr>w_value = v, w_unit = Some u\<rparr> = Inr (Some z)"
      using Some by (cases u) (simp_all add: Weight_value_def Weight_KG_def Weight_LB_def decimal_def)
    then have "resolved_weight_LB pkg = Some y"
      by (auto simp: resolved_weight_LB_def w y)
    moreover have "sum_weights (pkg # pkgs) acc = sum_weights pkgs (acc + y)"
      using res by (auto simp: w y py_add_def bind_err_def)
    ultimately show ?thesis
      by (simp add: rest total_resolved_LB_def)
  qed
qed

section \<open>Package attributes\<close>

text \<open>
  Claim C2, as stated, has the weight of a package prefer the preset's value. With a
  parcel weighing 5 and a preset weighing 1, \<^verbatim>\<open>Package.weight\<close> holds the parcel's 5:
  the weight is \<^verbatim>\<open>parcel.weight or preset.weight\<close>.
\<close>

theorem package_weight_prefers_parcel:
  "Package_weight
     (Package_init (default_Parcel\<lparr>parcel_weight := Some 5\<rparr>)
        (Some (default_PackagePreset\<lparr>preset_weight := Some 1\<rparr>)))
   = Inr \<lparr>w_value = Some 5, w_unit = Some LB\<rparr>"
  by (simp add: Package_weight_def Package_weight_unit_def Package_init_def default_Parcel_def
      default_PackagePreset_def WeightUnit_lookup_def py_or_def py_or_str_def truthy_def
      truthy_str_def)

text \<open>
  Claim C2, amended. Whenever the units of the package resolve, width, height and
  length hold the preset's value if the preset supplies a non-null, non-zero one, and
  the parcel's raw value otherwise; the weight has the opposite precedence: the
  parcel's raw weight if it is non-null and non-zero, the preset's weight otherwise.
\<close>

theorem package_attribute_precedence:
  assumes "Package_dimension_unit pkg = Inr du" and "Package_weight_unit pkg = Inr wu"
  shows "Package_width pkg =
           Inr \<lparr>d_value = (if truthy (preset_width (preset pkg)) then preset_width (preset pkg)
                            else parcel_width (parcel pkg)),
                d_unit = Some du\<rparr>
       \<and> Package_height pkg =
           Inr \<lparr>d_value = (if truthy (preset_height (preset pkg)) then preset_height (preset pkg)
                            else parcel_height (parcel pkg)),
                d_unit = Some du\<rparr>
       \<and> Package_length pkg =
           Inr \<lparr>d_value = (if truthy (preset_length (preset pkg)) then preset_length (preset pkg)
                            else parcel_length (parcel pkg)),
                d_unit = Some du\<rparr>
       \<and> Package_weight pkg =
           Inr \<lparr>w_value = (if truthy (parcel_weight (parcel pkg)) then parcel_weight (parcel pkg)
                            else preset_weight (preset pkg)),
                w_unit = Some wu\<rparr>"
  using assms
  by (simp add: Package_width_def Package_height_def Package_length_def Package_weight_def
      py_or_def)

text \<open>
  Claim C2, amended, on a parcel of width 3 and weight 5 with a preset of width 4 and
  weight 1: the width is the preset's 4, the height (absent on both) is null, the
  weight is the parcel's 5.
\<close>

theorem package_attribute_precedence_witness:
  "Package_width
     (Package_init (default_Parcel\<lparr>parcel_width := Some 3, parcel_weight := Some 5\<rparr>)
        (Some (default_PackagePreset\<lparr>preset_width := Some 4, preset_weight := Some 1\<rparr>)))
   = Inr \<lparr>d_value = Some 4, d_unit = Some IN\<rparr>
   \<and> Package_height
     (Package_init (default_Parcel\<lparr>parcel_width := Some 3, parcel_weight := Some 5\<rparr>)
        (Some (default_PackagePreset\<lparr>preset_width := Some 4, preset_weight := Some 1\<rparr>)))
   = Inr \<lparr>d_value = None, d_unit = Some IN\<rparr>
   \<and> Package_weight
     (Package_init (default_Parcel\<lparr>parcel_width := Some 3, parcel_weight := Some 5\<rparr>)
        (Some (default_PackagePreset\<lparr>preset_width := Some 4, preset_weight := Some 1\<rparr>)))
   = Inr \<lparr>w_value = Some 5, w_unit = Some LB\<rparr>"
proof -
  let ?pkg = "Package_init (default_Parcel\<lparr>parcel_width := Some 3, parcel_weight := Some 5\<rparr>)
        (Some (default_PackagePreset\<lparr>preset_width := Some 4, preset_weight := Some 1\<rparr>))"
  have du: "Package_dimension_unit ?pkg = Inr IN"
    by (simp add: Package_dimension_unit_def Package_init_def default_Parcel_def
        default_PackagePreset_def DimensionUnit_lookup_def py_or_str_def truthy_def truthy_str_def)
  have wu: "Package_weight_unit ?pkg = Inr LB"
    by (simp add: Package_weight_unit_def Package_init_def default_Parcel_def
        default_PackagePreset_def WeightUnit_lookup_def py_or_str_def truthy_str_def)
  show ?thesis
    using package_attribute_precedence [OF du wu]
    by (simp add: Package_init_def default_Parcel_def default_PackagePreset_def truthy_def)
qed

section \<open>Required fields of a batch\<close>

text \<open>
  Claim C3, as stated, leaves \<^verbatim>\<open>Packages(...)\<close> two outcomes: success or a field
  error. Evaluating a required attribute can raise by itself: the weight of a parcel
  whose unit is \<^verbatim>\<open>"OZ"\<close> looks \<^verbatim>\<open>WeightUnit["OZ"]\<close> up and raises KeyError, and a
  required name that \<^verbatim>\<open>Package\<close> does not have makes \<^verbatim>\<open>getattr\<close> raise
  AttributeError. The constructor fails with that exception.
\<close>

theorem packages_init_other_exceptions:
  "Packages_init
     [default_Parcel\<lparr>parcel_weight := Some 1, parcel_weight_unit := Some ''OZ''\<rparr>]
     None (Some [''weight'']) = Inl KeyError
   \<and> Packages_init [default_Parcel] None (Some [''depth'']) = Inl AttributeError"
proof -
  let ?pkg = "Package_init
     (default_Parcel\<lparr>parcel_weight := Some 1, parcel_weight_unit := Some ''OZ''\<rparr>) None"
  have "Package_weight ?pkg = Inl KeyError"
    by (simp add: package_eval)
  then have unit: "field_missing ?pkg ''weight'' = Inl KeyError"
    by (simp add: field_missing_def Package_getattr_def)
  have name: "field_missing (Package_init default_Parcel None) ''depth'' = Inl AttributeError"
    by (simp add: field_missing_def Package_getattr_def)
  show ?thesis
    using unit name by (simp add: Packages_init_def build_items_def compute_preset_def)
qed


text \<open>
  Claim C3, amended. Provided that evaluating each required attribute on each package
  raises nothing, the violations are the keys \<^verbatim>\<open>parcel[i].field\<close> of exactly the
  pairs of an index \<open>i\<close> and a required field whose value is missing on package \<open>i\<close>;
  the constructor succeeds when there is none, and otherwise fails with a field error
  whose dictionary has exactly these keys, each once.
\<close>

theorem packages_init_accumulates_violations:
  assumes "\<forall>pkg \<in> set (build_items parcels presets). \<forall>f \<in> set req.
             \<exists>m. field_missing pkg f = Inr m"
  shows "set (violation_keys 0 (build_items parcels presets) req) =
           {field_key i f | i f.
              i < length parcels \<and> f \<in> set req
              \<and> field_missing (build_items parcels presets ! i) f = Inr True}
       \<and> (violation_keys 0 (build_items parcels presets) req = [] \<longrightarrow>
            Packages_init parcels presets (Some req)
              = Inr \<lparr>items = build_items parcels presets\<rparr>)
       \<and> (violation_keys 0 (build_items parcels presets) req \<noteq> [] \<longrightarrow>
            (\<exists>errors. Packages_init parcels presets (Some req) = Inl (FieldError errors)
               \<and> fst ` set errors = set (violation_keys 0 (build_items parcels presets) req)
               \<and> distinct (map fst errors)))"
proof -
  define its where "its = build_items parcels presets"
  define keys where "keys = violation_keys 0 its req"
  have len: "length its = length parcels"
    by (simp add: its_def build_items_def)
  from check_items_ok [OF assms, of 0 "[]"] obtain errors where
    run: "check_items 0 its req [] = Inr errors"
    and ks: "fst ` set errors = set keys"
    and dist: "distinct (map fst errors)"
    unfolding its_def keys_def by auto
  have empty: "errors = [] \<longleftrightarrow> keys = []"
  proof
    assume "errors = []"
    with ks show "keys = []" by simp
  next
    assume "keys = []"
    with ks have "set errors = {}" by simp
    then show "errors = []" by simp
  qed
  have init: "Packages_init parcels presets (Some req) =
      (if errors \<noteq> [] then Inl (FieldError errors) else Inr \<lparr>items = its\<rparr>)"
    using run by (simp add: Packages_init_def its_def)
  have "set keys =
      {field_key i f | i f. i < length parcels \<and> f \<in> set req
         \<and> field_missing (its ! i) f = Inr True}"
    unfolding keys_def using violation_keys_set [of 0 its req] len by simp
  moreover have "keys = [] \<longrightarrow>
      Packages_init parcels presets (Some req) = Inr \<lparr>items = its\<rparr>"
    using init empty by simp
  moreover have "keys \<noteq> [] \<longrightarrow>
      (\<exists>errors. Packages_init parcels presets (Some req) = Inl (FieldError errors)
         \<and> fst ` set errors = set keys \<and> distinct (map fst errors))"
    using init empty ks dist by auto
  ultimately show ?thesis
    unfolding keys_def its_def by blast
qed

text \<open>
  Claim C3, amended, on two default parcels (no weight, no preset) with
  \<^verbatim>\<open>required=["weight"]\<close>: the field error names both parcels.
\<close>

theorem packages_init_accumulates_violations_witness:
  "Packages_init [default_Parcel, default_Parcel] None (Some [''weight''])
     = Inl (FieldError [(''parcel[0].weight'', required), (''parcel[1].weight'', required)])"
proof -
  let ?pkg = "Package_init default_Parcel None"
  have items: "build_items [default_Parcel, default_Parcel] None = [?pkg, ?pkg]"
    by (simp add: build_items_def compute_preset_def)
  have weight: "Package_weight ?pkg = Inr \<lparr>w_value = None, w_unit = Some LB\<rparr>"
    by (simp add: package_eval)
  have fm: "field_missing ?pkg ''weight'' = Inr True"
    by (simp add: field_missing_def Package_getattr_def weight value_is_None_def measure_eval)
  have ok: "\<forall>pkg \<in> set (build_items [default_Parcel, default_Parcel] None).
      \<forall>f \<in> set [''weight'']. \<exists>m. field_missing pkg f = Inr m"
    unfolding items by (intro ballI exI [of _ True]) (simp add: fm)
  have keys: "violation_keys 0 (build_items [default_Parcel, default_Parcel] None) [''weight'']
      = [''parcel[0].weight'', ''parcel[1].weight'']"
    unfolding items using fm by (simp add: field_key_def str_nat_digit digit_char_def)
  have run: "Packages_init [default_Parcel, default_Parcel] None (Some [''weight''])
     = Inl (FieldError [(''parcel[0].weight'', required), (''parcel[1].weight'', required)])"
    unfolding Packages_init_def items Let_def using fm
    by (simp add: field_key_def str_nat_digit digit_char_def)
  note third = packages_init_accumulates_violations [OF ok, THEN conjunct2, THEN conjunct2]
  have "violation_keys 0 (build_items [default_Parcel, default_Parcel] None) [''weight''] \<noteq> []"
    unfolding keys by simp
  with third have "\<exists>errors. Packages_init [default_Parcel, default_Parcel] None (Some [''weight''])
            = Inl (FieldError errors)
          \<and> fst ` set errors
              = set (violation_keys 0 (build_items [default_Parcel, default_Parcel] None) [''weight''])
          \<and> distinct (map fst errors)"
    by (rule mp)
  with run show ?thesis by simp
qed

section \<open>Total weight of a batch\<close>

text \<open>
  Claim C7, as stated, makes the value of \<^verbatim>\<open>Packages.weight\<close> the sum over the
  packages whose weight resolves. One parcel of 0.001 LB resolves, to 0.0 pounds; the
  sum is 0.0 and \<^verbatim>\<open>sum(...) or None\<close> turns it into null.
\<close>

theorem packages_weight_zero_sum_is_null:
  "Packages_weight
     \<lparr>items = [Package_init
                 (default_Parcel\<lparr>parcel_weight := Some 0.001, parcel_weight_unit := Some ''LB''\<rparr>)
                 None]\<rparr>
   = Inr \<lparr>w_value = None, w_unit = Some LB\<rparr>
   \<and> resolved_weight_LB
       (Package_init
          (default_Parcel\<lparr>parcel_weight := Some 0.001, parcel_weight_unit := Some ''LB''\<rparr>) None)
     = Some 0"
  by (simp add: Packages_weight_def resolved_weight_LB_def package_eval measure_eval py_add_def round2_eval)

text \<open>
  Claim C7, amended. When the weight unit of every package names a member of
  \<^verbatim>\<open>WeightUnit\<close>, \<^verbatim>\<open>Packages.weight\<close> is a weight in pounds whose value is the sum of
  the pounds of exactly the packages whose weight resolves if that sum is not zero,
  and null if it is zero, as it is when no weight resolves.
\<close>

theorem packages_weight_total:
  assumes "\<forall>pkg \<in> set (items ps). \<exists>u. Package_weight_unit pkg = Inr u"
  shows "Packages_weight ps =
           Inr \<lparr>w_value = (if total_resolved_LB (items ps) = 0 then None
                            else Some (total_resolved_LB (items ps))),
                w_unit = Some LB\<rparr>"
  using sum_weights_total [OF assms, of 0]
  by (simp add: Packages_weight_def py_or_def truthy_def)

text \<open>
  Claim C7, amended, on parcels of 2.5 LB and 1 KG: the total is 4.7 pounds, and its
  \<^verbatim>\<open>LB\<close> accessor reads 4.7.
\<close>

theorem packages_weight_total_witness:
  "Packages_weight
     \<lparr>items =
        [Package_init
           (default_Parcel\<lparr>parcel_weight := Some 2.5, parcel_weight_unit := Some ''LB''\<rparr>) None,
         Package_init
           (default_Parcel\<lparr>parcel_weight := Some 1, parcel_weight_unit := Some ''KG''\<rparr>) None]\<rparr>
   = Inr \<lparr>w_value = Some 4.7, w_unit = Some LB\<rparr>
   \<and> Weight_LB \<lparr>w_value = Some 4.7, w_unit = Some LB\<rparr> = Some 4.7"
proof -
  let ?ps = "\<lparr>items =
        [Package_init
           (default_Parcel\<lparr>parcel_weight := Some 2.5, parcel_weight_unit := Some ''LB''\<rparr>) None,
         Package_init
           (default_Parcel\<lparr>parcel_weight := Some 1, parcel_weight_unit := Some ''KG''\<rparr>) None]\<rparr>"
  have units: "\<forall>pkg \<in> set (items ?ps). \<exists>u. Package_weight_unit pkg = Inr u"
    by (simp add: package_eval measure_eval)
  have total: "total_resolved_LB (items ?ps) = 4.7"
    by (simp add: total_resolved_LB_def resolved_weight_LB_def package_eval measure_eval round2_eval)
  have "Weight_LB \<lparr>w_value = Some 4.7, w_unit = Some LB\<rparr> = Some 4.7"
    by (simp add: Weight_LB_def decimal_def round2_eval)
  then show ?thesis
    using packages_weight_total [OF units] total by simp
qed

section \<open>Weight round trips\<close>

lemma round_trip_bound:
  assumes b: "0 \<le> b" "b \<le> B" and c: "\<bar>a * b - 1\<bar> \<le> c"
  shows "\<bar>round2 (round2 (v * a) * b) - v\<bar> \<le> 1 / 200 + B / 200 + \<bar>v\<bar> * c"
proof -
  define l where "l = round2 (v * a)"
  define r where "r = round2 (l * b)"
  define d1 where "d1 = l - v * a"
  define d2 where "d2 = r - l * b"
  have eq: "r - v = d2 + d1 * b + v * (a * b - 1)"
    by (simp add: d1_def d2_def algebra_simps)
  have e1: "\<bar>d1\<bar> \<le> 1 / 200"
    unfolding d1_def l_def by (rule round2_close)
  have e2: "\<bar>d2\<bar> \<le> 1 / 200"
    unfolding d2_def r_def by (rule round2_close)
  have "\<bar>d1\<bar> * b \<le> (1 / 200) * B"
    using e1 b by (intro mult_mono) simp_all
  then have e3: "\<bar>d1 * b\<bar> \<le> B / 200"
    using b by (simp add: abs_mult)
  have "\<bar>v\<bar> * \<bar>a * b - 1\<bar> \<le> \<bar>v\<bar> * c"
    using c by (intro mult_left_mono) simp_all
  then have e4: "\<bar>v * (a * b - 1)\<bar> \<le> \<bar>v\<bar> * c"
    by (simp add: abs_mult)
  have "\<bar>r - v\<bar> \<le> \<bar>d2\<bar> + \<bar>d1 * b\<bar> + \<bar>v * (a * b - 1)\<bar>"
    unfolding eq by linarith
  with e2 e3 e4 show ?thesis
    unfolding r_def l_def by linarith
qed

lemma kg_lb_kg_bound:
  "\<bar>round2 (round2 (v * 2.204620823516057) * 0.453592) - v\<bar> \<le> 1 / 100 + \<bar>v\<bar> * (2 / 10 ^ 6)"
  using round_trip_bound [of "0.453592" 1 "2.204620823516057" "2 / 10 ^ 6" v]
  by simp

lemma lb_kg_lb_bound:
  "\<bar>round2 (round2 (v * 0.453592) * 2.204620823516057) - v\<bar> \<le> 2 / 100 + \<bar>v\<bar> * (2 / 10 ^ 6)"
  using round_trip_bound [of "2.204620823516057" 3 "0.453592" "2 / 10 ^ 6" v]
  by simp

text \<open>
  Claim C6, as stated, recovers every value within the tolerance of rounding to two
  decimals. The two factors are not inverses of each other (their product is
  0.99999837): 1000000 KG is 2204620.82 LB, which converts back to 999998.37 KG.
\<close>

theorem weight_round_trip_drifts:
  "Weight_KG \<lparr>w_value = Weight_LB \<lparr>w_value = Some 1000000, w_unit = Some KG\<rparr>,
              w_unit = Some LB\<rparr> = Some 999998.37"
proof -
  have lb: "Weight_LB \<lparr>w_value = Some 1000000, w_unit = Some KG\<rparr> = Some 2204620.82"
    by (simp add: Weight_LB_def decimal_def round2_eval)
  show ?thesis
    unfolding lb by (simp add: Weight_KG_def decimal_def round2_eval)
qed

text \<open>
  Claim C6, amended. The round trip recovers \<open>v\<close> up to an error that grows with
  \<open>v\<close>: from KG through LB and back within \<open>0.01 + 2 \<times> 10\<^sup>-\<^sup>6 \<times> |v|\<close>, from LB through
  KG and back within \<open>0.02 + 2 \<times> 10\<^sup>-\<^sup>6 \<times> |v|\<close>.
\<close>

theorem weight_round_trip_bound:
  "(w_unit w = Some KG \<and> w_value w = Some v \<longrightarrow>
      (\<exists>r. Weight_KG \<lparr>w_value = Weight_LB w, w_unit = Some LB\<rparr> = Some r
           \<and> \<bar>r - v\<bar> \<le> 1 / 100 + \<bar>v\<bar> * (2 / 10 ^ 6)))
   \<and> (w_unit w = Some LB \<and> w_value w = Some v \<longrightarrow>
      (\<exists>r. Weight_LB \<lparr>w_value = Weight_KG w, w_unit = Some KG\<rparr> = Some r
           \<and> \<bar>r - v\<bar> \<le> 2 / 100 + \<bar>v\<bar> * (2 / 10 ^ 6)))"
  using kg_lb_kg_bound [of v] lb_kg_lb_bound [of v]
  by (simp add: Weight_KG_def Weight_LB_def decimal_def)

text \<open>
  Claim C6, amended, on 10 KG (back to 10 KG through 22.05 LB) and on 1 LB (back to
  0.99 LB through 0.45 KG).
\<close>

theorem weight_round_trip_bound_witness:
  "Weight_KG \<lparr>w_value = Weight_LB \<lparr>w_value = Some 10, w_unit = Some KG\<rparr>, w_unit = Some LB\<rparr>
     = Some 10
   \<and> Weight_LB \<lparr>w_value = Weight_KG \<lparr>w_value = Some 1, w_unit = Some LB\<rparr>, w_unit = Some KG\<rparr>
     = Some 0.99
   \<and> \<bar>(10 :: rat) - 10\<bar> \<le> 1 / 100 + \<bar>10\<bar> * (2 / 10 ^ 6)
   \<and> \<bar>(0.99 :: rat) - 1\<bar> \<le> 2 / 100 + \<bar>1\<bar> * (2 / 10 ^ 6)"
proof -
  have lb: "Weight_LB \<lparr>w_value = Some 10, w_unit = Some KG\<rparr> = Some 22.05"
    by (simp add: Weight_LB_def decimal_def round2_eval)
  have kg: "Weight_KG \<lparr>w_value = Some 1, w_unit = Some LB\<rparr> = Some 0.45"
    by (simp add: Weight_KG_def decimal_def round2_eval)
  have a: "Weight_KG \<lparr>w_value = Some 22.05, w_unit = Some LB\<rparr> = Some 10"
    by (simp add: Weight_KG_def decimal_def round2_eval)
  have b: "Weight_LB \<lparr>w_value = Some 0.45, w_unit = Some KG\<rparr> = Some 0.99"
    by (simp add: Weight_LB_def decimal_def round2_eval)
  show ?thesis
    using weight_round_trip_bound [of "\<lparr>w_value = Some 10, w_unit = Some KG\<rparr>" 10]
      weight_round_trip_bound [of "\<lparr>w_value = Some 1, w_unit = Some LB\<rparr>" 1]
    unfolding lb kg a b by simp
qed

section \<open>Response parsers\<close>

lemma bind_err_Inl [simp]: "bind_err (Inl e) f = Inl e"
  by (simp add: bind_err_def)

lemma bind_err_Inr [simp]: "bind_err (Inr a) f = f a"
  by (simp add: bind_err_def)

lemma bind_err_eq_Inr:
  "bind_err r f = Inr b \<longleftrightarrow> (\<exists>a. r = Inr a \<and> f a = Inr b)"
  by (cases r) simp_all

lemma map_err_length: "map_err f xs = Inr ys \<Longrightarrow> length ys = length xs"
proof (induction xs arbitrary: ys)
  case Nil
  then show ?case by simp
next
  case (Cons x xs)
  from Cons.prems obtain y zs where "f x = Inr y" "map_err f xs = Inr zs" "ys = y # zs"
    by (auto simp: bind_err_eq_Inr)
  with Cons.IH show ?case by simp
qed

lemma extract_quote_not_offered:
  "\<not> quote_offered env node \<Longrightarrow> extract_quote env node settings = Inr None"
  by (auto simp: quote_offered_def extract_quote_def Let_def)

lemma extract_quote_offered:
  assumes "quote_offered env node" and "extract_quote env node settings = Inr q"
  shows "q \<noteq> None"
proof -
  from assms(1) have guard:
    "\<not> (ShippingCharge (build_QtdShp env node) = None
        \<or> ShippingCharge (build_QtdShp env node) = Some 0)"
    by (simp add: quote_offered_def)
  from assms(2) show ?thesis
    unfolding extract_quote_def Let_def if_not_P [OF guard]
    by (auto simp: bind_err_eq_Inr)
qed

lemma collect_offered:
  fixes env :: "'d dhl_env"
  defines "f \<equiv> \<lambda>settings n. extract_quote env n settings"
  shows "map_sum id (\<lambda>qs. map the (filter (\<lambda>q. q \<noteq> None) qs)) (map_err (f settings) nodes)
       = map_sum id (map the) (map_err (f settings) (filter (quote_offered env) nodes))"
proof (induction nodes)
  case Nil
  then show ?case by simp
next
  case (Cons n nodes)
  show ?case
  proof (cases "quote_offered env n")
    case False
    then have "f settings n = Inr None"
      unfolding f_def by (rule extract_quote_not_offered)
    with False Cons show ?thesis
      by (cases "map_err (f settings) nodes") simp_all
  next
    case True
    show ?thesis
    proof (cases "f settings n")
      case (Inl e)
      with True show ?thesis by simp
    next
      case (Inr q)
      with True have "q \<noteq> None"
        unfolding f_def by (rule extract_quote_offered)
      with True Inr Cons show ?thesis
        by (cases "map_err (f settings) nodes";
            cases "map_err (f settings) (filter (quote_offered env) nodes)") simp_all
    qed
  qed
qed

lemma parse_dct_response_offered:
  "parse_dct_response env response settings =
     bind_err
       (map_err (\<lambda>n. extract_quote env n settings)
          (filter (quote_offered env) (xpath_local_name response ''QtdShp'')))
       (\<lambda>quotes. Inr (map the quotes, dhl_parse_error_response env response settings))"
proof -
  let ?f = "\<lambda>n. extract_quote env n settings"
  let ?nodes = "xpath_local_name response ''QtdShp''"
  have c: "map_sum id (\<lambda>qs. map the (filter (\<lambda>q. q \<noteq> None) qs)) (map_err ?f ?nodes)
       = map_sum id (map the) (map_err ?f (filter (quote_offered env) ?nodes))"
    by (rule collect_offered)
  show ?thesis
    unfolding parse_dct_response_def Let_def using c
    by (cases "map_err ?f ?nodes"; cases "map_err ?f (filter (quote_offered env) ?nodes)")
       simp_all
qed

lemma parse_freight_rate_response_length:
  "parse_freight_rate_response uenv response settings = Inr (rates, msgs)
     \<Longrightarrow> length rates = length (xpath_local_name response ''FreightRateResponse'')
         \<and> msgs = ups_parse_error_response uenv response settings"
  unfolding parse_freight_rate_response_def Let_def
  by (auto simp: bind_err_eq_Inr dest: map_err_length)

lemma sample_dhl_nodes:
  "xpath_local_name sample_dhl_response ''QtdShp'' =
     [Element None ''QtdShp'' (Some ''25.50'') [],
      Element None ''QtdShp'' (Some ''0.00'') [],
      Element None ''QtdShp'' None []]"
  by (simp add: sample_dhl_response_def xpath_local_name_def)

lemma sample_quote:
  "extract_quote sample_dhl_env (Element None ''QtdShp'' (Some ''25.50'') []) sample_settings =
     Inr (Some
       \<lparr>rate_carrier_name = Some ''carrier'', rate_carrier_id = Some ''carrier-id'',
        rate_currency = Some ''USD'', rate_transit_days = None,
        rate_service = Some ''EXPRESS WORLDWIDE'', rate_base_charge = Some 20,
        rate_total_charge = Some 25.5, rate_duties_and_taxes = Some 0,
        rate_discount = Some 0,
        rate_extra_charges =
          [\<lparr>charge_name = Some ''FUEL SURCHARGE'', charge_amount = Some 5.5,
            charge_currency = Some ''USD''\<rparr>]\<rparr>)"
  by (simp add: extract_quote_def sample_dhl_env_def sample_build_QtdShp_def sample_settings_def
      py_in_str_def py_or_def truthy_def py_add_def decimal_def round2_eval)

lemma sample_offered:
  "filter (quote_offered sample_dhl_env) (xpath_local_name sample_dhl_response ''QtdShp'')
     = [Element None ''QtdShp'' (Some ''25.50'') []]"
  unfolding sample_dhl_nodes
  by (simp add: quote_offered_def sample_dhl_env_def sample_build_QtdShp_def)

lemma filter_err_code:
  "filter_err (\<lambda>r. bind_err (rate_code r) (\<lambda>c. Inr (c = k))) rs = Inr ys
     \<Longrightarrow> ys = filter (\<lambda>r. rate_code r = Inr k) rs"
proof (induction rs arbitrary: ys)
  case Nil
  then show ?case by simp
next
  case (Cons r rs)
  from Cons.prems obtain c zs where c: "rate_code r = Inr c"
    and zs: "filter_err (\<lambda>r. bind_err (rate_code r) (\<lambda>c. Inr (c = k))) rs = Inr zs"
    and ys: "ys = (if c = k then r # zs else zs)"
    by (auto simp: bind_err_eq_Inr)
  from Cons.IH [OF zs] have "zs = filter (\<lambda>r. rate_code r = Inr k) rs" .
  with c ys show ?case by simp
qed

lemma find_filter_hd: "filter P xs = y # ys \<Longrightarrow> List.find P xs = Some y"
  by (induction xs) (auto split: if_splits)

lemma decimal_zero_total:
  "v = None \<or> v = Some 0 \<Longrightarrow> decimal (py_or v (Some 0)) = Some 0"
  by (auto simp: py_or_def truthy_def decimal_def round2_def round_half_even_def)

lemma extract_freight_rate_total:
  assumes "extract_freight_rate env node settings = Inr rate"
  shows "\<exists>r f. List.find (\<lambda>r. rate_code r = Inr (Some ''AFTR_DSCNT''))
                  (Rate (build_FreightRateResponse env node)) = Some r
               \<and> Factor r = Some f
               \<and> rate_total_charge rate = decimal (py_or (Value f) (Some 0))"
proof -
  let ?rates = "Rate (build_FreightRateResponse env node)"
  from assms obtain after tc total where
    after: "filter_err (\<lambda>r. bind_err (rate_code r) (\<lambda>c. Inr (c = Some ''AFTR_DSCNT'')))
              ?rates = Inr after"
    and tc: "(case after of [] \<Rightarrow> Inl IndexError | r # _ \<Rightarrow> Inr r) = Inr tc"
    and total: "rate_factor_value tc = Inr total"
    and charge: "rate_total_charge rate = decimal (py_or total (Some 0))"
    unfolding extract_freight_rate_def Let_def
    by (auto simp: bind_err_eq_Inr)
  from tc obtain rest where "after = tc # rest"
    by (cases after) simp_all
  with filter_err_code [OF after]
  have "filter (\<lambda>r. rate_code r = Inr (Some ''AFTR_DSCNT'')) ?rates = tc # rest" by simp
  then have found: "List.find (\<lambda>r. rate_code r = Inr (Some ''AFTR_DSCNT'')) ?rates = Some tc"
    by (rule find_filter_hd)
  from total obtain f where "Factor tc = Some f" "total = Value f"
    by (cases "Factor tc") (simp_all add: rate_factor_value_def attr_of_def)
  with found charge show ?thesis by blast
qed

lemma sample_ups_nodes:
  "xpath_local_name sample_ups_response ''FreightRateResponse''
     = [sample_freight_zero, sample_freight_absent]"
  by (simp add: sample_ups_response_def sample_freight_zero_def sample_freight_absent_def
      branch_def leaf_def xpath_local_name_def)

lemma sample_ups_messages:
  "usps_parse_error_response sample_build_Error sample_ups_response sample_settings = []"
  by (simp add: usps_parse_error_response_def sample_ups_response_def sample_freight_zero_def
      sample_freight_absent_def branch_def leaf_def xpath_local_name_def el_tag_def)

lemmas freight_eval =
  extract_freight_rate_def sample_ups_env_def sample_build_FreightRateResponse_def
  rate_code_def rate_factor_value_def rate_charge_def attr_of_def xpath_local_name_def
  branch_def leaf_def py_or_def truthy_def py_add_def decimal_def round2_eval

lemma sample_freight_zero_total:
  "map_sum id rate_total_charge
     (extract_freight_rate sample_ups_env sample_freight_zero sample_settings) = Inr (Some 0)"
  by (simp add: sample_freight_zero_def freight_eval)

lemma sample_freight_absent_total:
  "map_sum id rate_total_charge
     (extract_freight_rate sample_ups_env sample_freight_absent sample_settings) = Inr (Some 0)"
  by (simp add: sample_freight_absent_def freight_eval)

text \<open>
  Claim C5, as stated, covers every rate-response parser. The UPS freight parser keeps
  every \<^verbatim>\<open>FreightRateResponse\<close> node and reads an absent or zero charge after
  discount as \<^verbatim>\<open>total_charge.Factor.Value or 0.0\<close>: of the two records of the
  sample response, one with the value 0.00 and one without a value, each yields a rate
  priced 0.
\<close>

theorem freight_rate_zero_total_emitted:
  "map_sum id (\<lambda>(rates, msgs). (map rate_total_charge rates, msgs))
     (parse_freight_rate_response sample_ups_env sample_ups_response sample_settings)
   = Inr ([Some 0, Some 0], [])"
proof -
  obtain a where a: "extract_freight_rate sample_ups_env sample_freight_zero sample_settings
      = Inr a" "rate_total_charge a = Some 0"
    using sample_freight_zero_total
    by (cases "extract_freight_rate sample_ups_env sample_freight_zero sample_settings") auto
  obtain b where b: "extract_freight_rate sample_ups_env sample_freight_absent sample_settings
      = Inr b" "rate_total_charge b = Some 0"
    using sample_freight_absent_total
    by (cases "extract_freight_rate sample_ups_env sample_freight_absent sample_settings") auto
  have msgs: "ups_parse_error_response sample_ups_env sample_ups_response sample_settings = []"
    using sample_ups_messages by (simp add: sample_ups_env_def)
  show ?thesis
    unfolding parse_freight_rate_response_def Let_def sample_ups_nodes
    by (simp add: a b msgs)
qed


text \<open>
  Claim C5, amended. In the DHL rate parser, a quote record whose shipping charge is
  zero or absent extracts to nothing without raising, and the parser's result is the
  one it would give on the remaining quote records alone: it returns one rate per
  record with a non-zero charge, and no message on account of the others. The UPS
  freight parser excludes nothing: it returns one rate per \<^verbatim>\<open>FreightRateResponse\<close>
  node, and the total charge of an extracted rate is the factor value of the first
  rate coded \<^verbatim>\<open>AFTR_DSCNT\<close>, rounded, with an absent or zero value emitted as 0.
\<close>

theorem dct_zero_charge_quotes_excluded:
  "(\<not> quote_offered env node \<longrightarrow> extract_quote env node settings = Inr None)
   \<and> parse_dct_response env response settings =
       bind_err
         (map_err (\<lambda>n. extract_quote env n settings)
            (filter (quote_offered env) (xpath_local_name response ''QtdShp'')))
         (\<lambda>quotes. Inr (map the quotes, dhl_parse_error_response env response settings))
   \<and> (\<forall>rates msgs. parse_dct_response env response settings = Inr (rates, msgs) \<longrightarrow>
         length rates
           = length (filter (quote_offered env) (xpath_local_name response ''QtdShp'')))
   \<and> (\<forall>rates msgs. parse_freight_rate_response uenv response settings = Inr (rates, msgs) \<longrightarrow>
         length rates = length (xpath_local_name response ''FreightRateResponse''))
   \<and> (\<forall>rate. extract_freight_rate uenv detail_node settings = Inr rate \<longrightarrow>
         (\<exists>r f. List.find (\<lambda>r. rate_code r = Inr (Some ''AFTR_DSCNT''))
                   (Rate (build_FreightRateResponse uenv detail_node)) = Some r
                \<and> Factor r = Some f
                \<and> rate_total_charge rate = decimal (py_or (Value f) (Some 0))
                \<and> (Value f = None \<or> Value f = Some 0 \<longrightarrow> rate_total_charge rate = Some 0)))"
proof -
  have len: "length rates
      = length (filter (quote_offered env) (xpath_local_name response ''QtdShp''))"
    if "parse_dct_response env response settings = Inr (rates, msgs)" for rates msgs
    using that unfolding parse_dct_response_offered
    by (auto simp: bind_err_eq_Inr dest: map_err_length)
  have total: "\<exists>r f. List.find (\<lambda>r. rate_code r = Inr (Some ''AFTR_DSCNT''))
                   (Rate (build_FreightRateResponse uenv detail_node)) = Some r
                \<and> Factor r = Some f
                \<and> rate_total_charge rate = decimal (py_or (Value f) (Some 0))
                \<and> (Value f = None \<or> Value f = Some 0 \<longrightarrow> rate_total_charge rate = Some 0)"
    if "extract_freight_rate uenv detail_node settings = Inr rate" for rate
  proof -
    from extract_freight_rate_total [OF that] obtain r f where
      rf: "List.find (\<lambda>r. rate_code r = Inr (Some ''AFTR_DSCNT''))
             (Rate (build_FreightRateResponse uenv detail_node)) = Some r"
        "Factor r = Some f"
        "rate_total_charge rate = decimal (py_or (Value f) (Some 0))"
      by blast
    have "Value f = None \<or> Value f = Some 0 \<longrightarrow> rate_total_charge rate = Some 0"
      using rf(3) decimal_zero_total [of "Value f"] by simp
    with rf show ?thesis by blast
  qed
  show ?thesis
    using len total extract_quote_not_offered [of env node settings]
      parse_dct_response_offered [of env response settings]
      parse_freight_rate_response_length [of uenv response settings]
    by blast
qed


text \<open>
  Claim C5, amended, on the sample responses: of three DHL quote records, charged
  25.50, 0.00 and nothing, only the first becomes a rate; the UPS record without a
  value after discount becomes a rate priced 0.
\<close>

theorem dct_zero_charge_quotes_excluded_witness:
  "map_sum id (\<lambda>(rates, msgs). map rate_total_charge rates)
     (parse_dct_response sample_dhl_env sample_dhl_response sample_settings) = Inr [Some 25.5]
   \<and> length (xpath_local_name sample_dhl_response ''QtdShp'') = 3
   \<and> extract_quote sample_dhl_env (Element None ''QtdShp'' (Some ''0.00'') []) sample_settings
       = Inr None
   \<and> extract_quote sample_dhl_env (Element None ''QtdShp'' None []) sample_settings = Inr None
   \<and> map_sum id rate_total_charge
       (extract_freight_rate sample_ups_env sample_freight_absent sample_settings)
       = Inr (Some 0)"
proof -
  note excl = dct_zero_charge_quotes_excluded
  have zero: "\<not> quote_offered sample_dhl_env (Element None ''QtdShp'' (Some ''0.00'') [])"
    by (simp add: quote_offered_def sample_dhl_env_def sample_build_QtdShp_def)
  have absent: "\<not> quote_offered sample_dhl_env (Element None ''QtdShp'' None [])"
    by (simp add: quote_offered_def sample_dhl_env_def sample_build_QtdShp_def)
  from excl [of sample_dhl_env "Element None ''QtdShp'' (Some ''0.00'') []" sample_settings,
      THEN conjunct1] zero
  have a: "extract_quote sample_dhl_env (Element None ''QtdShp'' (Some ''0.00'') [])
      sample_settings = Inr None" by (rule mp)
  from excl [of sample_dhl_env "Element None ''QtdShp'' None []" sample_settings,
      THEN conjunct1] absent
  have b: "extract_quote sample_dhl_env (Element None ''QtdShp'' None []) sample_settings
      = Inr None" by (rule mp)
  have c: "map_sum id (\<lambda>(rates, msgs). map rate_total_charge rates)
     (parse_dct_response sample_dhl_env sample_dhl_response sample_settings) = Inr [Some 25.5]"
    unfolding excl [of sample_dhl_env _ sample_settings sample_dhl_response,
        THEN conjunct2, THEN conjunct1] sample_offered
    by (simp add: sample_quote)
  show ?thesis
    using a b c sample_freight_absent_total by (simp add: sample_dhl_nodes)
qed




end
